theory Spec2Isabelle
  imports Complex_Main
begin

section \<open>Go strings\<close>

text \<open>
  A Go string is a sequence of bytes, here a \<open>string\<close> (a list of 8-bit characters).
  The functions of package \<open>strings\<close> that the server calls are written out on bytes.
  \<open>strings.TrimSpace\<close> and \<open>strings.ToLower\<close> are the ASCII parts of the library
  functions: they agree with Go on every text whose bytes are below 0x80.
\<close>

definition isSpace :: "char \<Rightarrow> bool" where
  "isSpace c = (c = CHR 0x09 \<or> c = CHR 0x0A \<or> c = CHR 0x0B \<or> c = CHR 0x0C
                \<or> c = CHR 0x0D \<or> c = CHR 0x20)"

definition TrimSpace :: "string \<Rightarrow> string" where
  "TrimSpace s = rev (dropWhile isSpace (rev (dropWhile isSpace s)))"

definition isUpper :: "char \<Rightarrow> bool" where
  "isUpper c = (65 \<le> (of_char c :: nat) \<and> (of_char c :: nat) \<le> 90)"

definition isLowerAlpha :: "char \<Rightarrow> bool" where
  "isLowerAlpha c = (97 \<le> (of_char c :: nat) \<and> (of_char c :: nat) \<le> 122)"

definition isDigit :: "char \<Rightarrow> bool" where
  "isDigit c = (48 \<le> (of_char c :: nat) \<and> (of_char c :: nat) \<le> 57)"

definition lowerChar :: "char \<Rightarrow> char" where
  "lowerChar c = (if isUpper c then char_of ((of_char c :: nat) + 32) else c)"

definition ToLower :: "string \<Rightarrow> string" where
  "ToLower s = map lowerChar s"

definition HasPrefix :: "string \<Rightarrow> string \<Rightarrow> bool" where
  "HasPrefix s p = (take (length p) s = p)"

definition HasSuffix :: "string \<Rightarrow> string \<Rightarrow> bool" where
  "HasSuffix s p = (length p \<le> length s \<and> drop (length s - length p) s = p)"

fun Contains :: "string \<Rightarrow> string \<Rightarrow> bool" where
  "Contains [] sub = (sub = [])"
| "Contains (c # cs) sub = (HasPrefix (c # cs) sub \<or> Contains cs sub)"

text \<open>\<open>strings.Cut s sep\<close> for a one-byte separator: the text before the first
  separator, the text after it, and whether it was found.\<close>

definition Cut :: "string \<Rightarrow> char \<Rightarrow> string \<times> string \<times> bool" where
  "Cut s sep = (let before = takeWhile (\<lambda>c. c \<noteq> sep) s;
                    rest = dropWhile (\<lambda>c. c \<noteq> sep) s
                in (before, tl rest, rest \<noteq> []))"

text \<open>\<open>strings.LastIndexByte\<close> as a split: \<open>None\<close> when the byte does not occur,
  else the text before the last occurrence and the text from it on.\<close>

definition splitLast :: "string \<Rightarrow> char \<Rightarrow> (string \<times> string) option" where
  "splitLast s sep =
     (if sep \<in> set s
      then (let after = rev (takeWhile (\<lambda>c. c \<noteq> sep) (rev s))
            in Some (take (length s - length after - 1) s, sep # after))
      else None)"

definition TrimRight :: "string \<Rightarrow> char \<Rightarrow> string" where
  "TrimRight s c = rev (dropWhile (\<lambda>x. x = c) (rev s))"

section \<open>Go errors\<close>

text \<open>
  An \<open>error\<close> value is seen by the server through three observations only:
  \<open>errors.Is(err, context.DeadlineExceeded)\<close>, \<open>errors.Is(err, context.Canceled)\<close>
  and the text \<open>err.Error()\<close>.  \<open>errors.New\<close> and \<open>fmt.Errorf\<close> without \<open>%w\<close> build
  an error that is neither; \<open>fmt.Errorf\<close> with \<open>%w\<close> keeps what the wrapped error is.
\<close>

datatype go_error = GoError (isDeadlineExceeded: bool) (isCanceled: bool) (Error: string)

definition errors_New :: "string \<Rightarrow> go_error" where
  "errors_New msg = GoError False False msg"

definition wrapError :: "string \<Rightarrow> go_error \<Rightarrow> go_error" where
  "wrapError prefix e = GoError (isDeadlineExceeded e) (isCanceled e) (prefix @ Error e)"

section \<open>URLs of package net/url\<close>

text \<open>
  The fields of Go's \<open>url.URL\<close>.  \<open>User\<close> holds the user information as it is written
  before the \<open>@\<close>, unchecked; \<open>None\<close> is the nil pointer.
\<close>

record URL =
  Scheme :: string
  Opaque :: string
  User :: "string option"
  Host :: string
  Path :: string
  ForceQuery :: bool
  OmitHost :: bool
  RawQuery :: string
  Fragment :: string

definition emptyURL :: URL where
  "emptyURL = \<lparr>Scheme = [], Opaque = [], User = None, Host = [], Path = [],
               ForceQuery = False, OmitHost = False, RawQuery = [], Fragment = []\<rparr>"

text \<open>
  \<open>url.Parse\<close> and \<open>url.ParseRequestURI\<close> belong to Go's standard library, not to the
  repository.  They are modelled step by step after the library's \<open>parse\<close>: control bytes
  are refused, the fragment is cut at the first \<open>#\<close>, the scheme is read by \<open>getScheme\<close>
  and lower-cased, the query is cut at the first \<open>?\<close>, a rootless rest after a scheme is
  opaque, an authority follows \<open>//\<close> and ends at the next \<open>/\<close>, and what remains is the
  path.  Percent-escapes are not decoded and nothing is escaped on output, so the model
  is exact for ASCII texts without \<open>%\<close> whose path, host and fragment need no escaping.
\<close>

definition isCTL :: "char \<Rightarrow> bool" where
  "isCTL c = ((of_char c :: nat) < 32 \<or> (of_char c :: nat) = 127)"

fun getScheme :: "string \<Rightarrow> string \<Rightarrow> string \<Rightarrow> (string \<times> string) option" where
  "getScheme rawURL seen [] = Some ([], rawURL)"
| "getScheme rawURL seen (c # cs) =
     (if isLowerAlpha c \<or> isUpper c then getScheme rawURL (seen @ [c]) cs
      else if isDigit c \<or> c = CHR ''+'' \<or> c = CHR ''-'' \<or> c = CHR ''.''
        then (if seen = [] then Some ([], rawURL) else getScheme rawURL (seen @ [c]) cs)
      else if c = CHR '':''
        then (if seen = [] then None else Some (seen, cs))
      else Some ([], rawURL))"

definition validOptionalPort :: "string \<Rightarrow> bool" where
  "validOptionalPort port =
     (case port of [] \<Rightarrow> True
      | c # ds \<Rightarrow> c = CHR '':'' \<and> list_all isDigit ds)"

text \<open>The bytes a host may hold unescaped (\<open>shouldEscape\<close> in host mode); bytes from
  0x80 on pass as well.\<close>

definition hostByteOK :: "char \<Rightarrow> bool" where
  "hostByteOK c = (isLowerAlpha c \<or> isUpper c \<or> isDigit c \<or> 128 \<le> (of_char c :: nat)
                   \<or> c \<in> set ''!$&()*+,;=:[]<>-_.~'' \<or> c = CHR 0x27 \<or> c = CHR 0x22)"

text \<open>The verb \<open>%q\<close> of package fmt (\<open>strconv.Quote\<close>): the text between double
  quotes, with the quote, the backslash, newline, carriage return and tab escaped.  Other
  bytes are copied, which is what Go does for printable text.\<close>

definition go_quote :: "string \<Rightarrow> string" where
  "go_quote s =
     [CHR 0x22]
     @ concat (map (\<lambda>c. if c = CHR 0x22 then [CHR 0x5C, CHR 0x22]
                         else if c = CHR 0x5C then [CHR 0x5C, CHR 0x5C]
                         else if c = CHR 0x0A then [CHR 0x5C, CHR ''n'']
                         else if c = CHR 0x0D then [CHR 0x5C, CHR ''r'']
                         else if c = CHR 0x09 then [CHR 0x5C, CHR ''t'']
                         else [c]) s)
     @ [CHR 0x22]"

definition checkHostBytes :: "string \<Rightarrow> string + string" where
  "checkHostBytes host =
     (case filter (\<lambda>c. \<not> hostByteOK c) host of
        [] \<Rightarrow> Inr host
      | c # _ \<Rightarrow> Inl (''invalid character '' @ go_quote [c] @ '' in host name''))"

definition parseHost :: "string \<Rightarrow> string + string" where
  "parseHost host =
     (if HasPrefix host ''[''
      then (case splitLast host (CHR '']'') of
              None \<Rightarrow> Inl ''missing ']' in host''
            | Some (lit, closing) \<Rightarrow>
                if \<not> validOptionalPort (tl closing)
                then Inl (''invalid port '' @ go_quote (tl closing) @ '' after host'')
                else checkHostBytes host)
      else (case splitLast host (CHR '':'') of
              None \<Rightarrow> checkHostBytes host
            | Some (h, colonPort) \<Rightarrow>
                if \<not> validOptionalPort colonPort
                then Inl (''invalid port '' @ go_quote colonPort @ '' after host'')
                else checkHostBytes host))"

definition parseAuthority :: "string \<Rightarrow> string + (string option \<times> string)" where
  "parseAuthority authority =
     (case splitLast authority (CHR ''@'') of
        None \<Rightarrow> map_sum id (\<lambda>h. (None, h)) (parseHost authority)
      | Some (userinfo, atHost) \<Rightarrow>
          map_sum id (\<lambda>h. (Some userinfo, h)) (parseHost (tl atHost)))"

definition count_byte :: "string \<Rightarrow> char \<Rightarrow> nat" where
  "count_byte s c = length (filter (\<lambda>x. x = c) s)"

definition parse :: "string \<Rightarrow> bool \<Rightarrow> string + URL" where
  "parse rawURL viaRequest =
     (if list_ex isCTL rawURL then Inl ''net/url: invalid control character in URL''
      else if rawURL = [] \<and> viaRequest then Inl ''empty url''
      else if rawURL = ''*'' then Inr (emptyURL\<lparr>Path := ''*''\<rparr>)
      else case getScheme rawURL [] rawURL of
        None \<Rightarrow> Inl ''missing protocol scheme''
      | Some (scheme0, rest0) \<Rightarrow>
          let scheme = ToLower scheme0;
              force = (HasSuffix rest0 ''?'' \<and> count_byte rest0 (CHR ''?'') = 1);
              rest1 = (if force then butlast rest0 else fst (Cut rest0 (CHR ''?'')));
              query = (if force then [] else fst (snd (Cut rest0 (CHR ''?''))));
              u = emptyURL\<lparr>Scheme := scheme, ForceQuery := force, RawQuery := query\<rparr>
          in if \<not> HasPrefix rest1 ''/'' \<and> scheme \<noteq> [] then Inr (u\<lparr>Opaque := rest1\<rparr>)
             else if \<not> HasPrefix rest1 ''/'' \<and> viaRequest then Inl ''invalid URI for request''
             else if \<not> HasPrefix rest1 ''/'' \<and> CHR '':'' \<in> set (fst (Cut rest1 (CHR ''/'')))
               then Inl ''first path segment in URL cannot contain colon''
             else if (scheme \<noteq> [] \<or> \<not> viaRequest \<and> \<not> HasPrefix rest1 ''///'')
                      \<and> HasPrefix rest1 ''//''
               then (let authority = fst (Cut (drop 2 rest1) (CHR ''/''));
                         rest2 = dropWhile (\<lambda>c. c \<noteq> CHR ''/'') (drop 2 rest1)
                     in case parseAuthority authority of
                          Inl e \<Rightarrow> Inl e
                        | Inr (usr, host) \<Rightarrow>
                            Inr (u\<lparr>User := usr, Host := host, Path := rest2\<rparr>))
             else if scheme \<noteq> [] \<and> HasPrefix rest1 ''/''
               then Inr (u\<lparr>OmitHost := True, Path := rest1\<rparr>)
             else Inr (u\<lparr>Path := rest1\<rparr>))"

text \<open>A failure is a \<open>*url.Error\<close>, whose text is \<open>parse "<url>": <reason>\<close>.\<close>

definition urlError :: "string \<Rightarrow> string \<Rightarrow> go_error" where
  "urlError rawURL reason = errors_New (''parse '' @ go_quote rawURL @ '': '' @ reason)"

definition url_Parse :: "string \<Rightarrow> go_error + URL" where
  "url_Parse rawURL =
     (case Cut rawURL (CHR ''#'') of
        (u, frag, _) \<Rightarrow>
          (case parse u False of
             Inl reason \<Rightarrow> Inl (urlError u reason)
           | Inr url \<Rightarrow> Inr (url\<lparr>Fragment := frag\<rparr>)))"

definition url_ParseRequestURI :: "string \<Rightarrow> go_error + URL" where
  "url_ParseRequestURI rawURL =
     (case parse rawURL True of
        Inl reason \<Rightarrow> Inl (urlError rawURL reason)
      | Inr url \<Rightarrow> Inr url)"

text \<open>\<open>URL.String\<close>: the scheme, \<open>//\<close> with user information and host, the path, the
  query and the fragment, in the library's order and under its conditions.\<close>

definition url_String :: "URL \<Rightarrow> string" where
  "url_String u =
     (let head = (if Scheme u \<noteq> [] then Scheme u @ '':'' else []);
          body =
            (if Opaque u \<noteq> [] then head @ Opaque u
             else
               let auth =
                     (if Scheme u \<noteq> [] \<or> Host u \<noteq> [] \<or> User u \<noteq> None
                      then (if OmitHost u \<and> Host u = [] \<and> User u = None then []
                            else (if Host u \<noteq> [] \<or> Path u \<noteq> [] \<or> User u \<noteq> None
                                  then ''//'' else [])
                                 @ (case User u of None \<Rightarrow> [] | Some ui \<Rightarrow> ui @ ''@'')
                                 @ Host u)
                      else []);
                   slash = (if Path u \<noteq> [] \<and> hd (Path u) \<noteq> CHR ''/'' \<and> Host u \<noteq> []
                            then ''/'' else []);
                   dot = (if head @ auth @ slash = []
                             \<and> CHR '':'' \<in> set (fst (Cut (Path u) (CHR ''/'')))
                          then ''./'' else [])
               in head @ auth @ slash @ dot @ Path u)
      in body
         @ (if ForceQuery u \<or> RawQuery u \<noteq> [] then ''?'' @ RawQuery u else [])
         @ (if Fragment u \<noteq> [] then ''#'' @ Fragment u else []))"

text \<open>\<open>URL.Hostname\<close> and \<open>URL.Port\<close> (the library's \<open>splitHostPort\<close>) and
  \<open>net.JoinHostPort\<close>.\<close>

definition splitHostPort :: "string \<Rightarrow> string \<times> string" where
  "splitHostPort hostPort =
     (let (host, port) =
            (case splitLast hostPort (CHR '':'') of
               None \<Rightarrow> (hostPort, [])
             | Some (h, colonPort) \<Rightarrow>
                 if validOptionalPort colonPort then (h, tl colonPort) else (hostPort, []))
      in (if HasPrefix host ''['' \<and> HasSuffix host '']''
          then butlast (tl host) else host, port))"

definition Hostname :: "URL \<Rightarrow> string" where
  "Hostname u = fst (splitHostPort (Host u))"

definition Port :: "URL \<Rightarrow> string" where
  "Port u = snd (splitHostPort (Host u))"

definition JoinHostPort :: "string \<Rightarrow> string \<Rightarrow> string" where
  "JoinHostPort host port =
     (if CHR '':'' \<in> set host then ''['' @ host @ '']:'' @ port else host @ '':'' @ port)"


text \<open>The verb \<open>%d\<close> of package fmt.\<close>

fun show_nat :: "nat \<Rightarrow> string" where
  "show_nat n = (if n < 10 then [char_of (48 + n)]
                 else show_nat (n div 10) @ [char_of (48 + n mod 10)])"

declare show_nat.simps [simp del]

definition show_int :: "int \<Rightarrow> string" where
  "show_int i = (if i < 0 then ''-'' @ show_nat (nat (- i)) else show_nat (nat i))"

section \<open>Endpoint resolution\<close>

subsection \<open>Configuration\<close>

text \<open>The two environment variables the resolver reads; \<open>None\<close> is an unset variable.\<close>

record environment =
  CHROME_WS_ENDPOINT :: "string option"
  BROWSERLESS_HTTP_URL :: "string option"

definition defaultBrowserlessHTTPURL :: string where
  "defaultBrowserlessHTTPURL = ''http://localhost:3000''"

definition os_Getenv :: "string option \<Rightarrow> string" where
  "os_Getenv v = (case v of None \<Rightarrow> [] | Some s \<Rightarrow> s)"

definition getBrowserlessHTTPURL :: "environment \<Rightarrow> string" where
  "getBrowserlessHTTPURL env =
     (case BROWSERLESS_HTTP_URL env of
        None \<Rightarrow> defaultBrowserlessHTTPURL
      | Some v \<Rightarrow> TrimSpace v)"

definition getChromeWSEndpoint :: "environment \<Rightarrow> string" where
  "getChromeWSEndpoint env = TrimSpace (os_Getenv (CHROME_WS_ENDPOINT env))"

subsection \<open>Rewriting a discovered WebSocket URL\<close>

definition hasDevToolsPath :: "string \<Rightarrow> bool" where
  "hasDevToolsPath wsRaw0 =
     (let wsRaw = TrimSpace wsRaw0
      in if wsRaw = [] then False
         else case url_Parse wsRaw of
                Inl err \<Rightarrow> False
              | Inr u \<Rightarrow> HasPrefix (TrimSpace (Path u)) ''/devtools/'')"

definition parseBrowserlessHTTPBase :: "string \<Rightarrow> go_error + URL" where
  "parseBrowserlessHTTPBase raw0 =
     (let raw = TrimSpace raw0
      in if raw = [] then Inl (errors_New ''BROWSERLESS_HTTP_URL is empty'')
         else case url_Parse raw of
           Inl err \<Rightarrow>
             Inl (wrapError (''invalid BROWSERLESS_HTTP_URL '' @ go_quote raw @ '': '') err)
         | Inr u \<Rightarrow>
             if Scheme u = [] then
               Inl (errors_New (''invalid BROWSERLESS_HTTP_URL '' @ go_quote raw
                                @ '': missing scheme (http/https)''))
             else if Scheme u \<noteq> ''http'' \<and> Scheme u \<noteq> ''https'' then
               Inl (errors_New (''invalid BROWSERLESS_HTTP_URL '' @ go_quote raw
                                @ '': scheme must be http/https''))
             else if Host u = [] then
               Inl (errors_New (''invalid BROWSERLESS_HTTP_URL '' @ go_quote raw
                                @ '': missing host''))
             else Inr u)"

definition httpBaseHostPortWithDefault :: "URL \<Rightarrow> go_error + string" where
  "httpBaseHostPortWithDefault u =
     (let host = Hostname u
      in if host = [] then
           Inl (errors_New (''invalid BROWSERLESS_HTTP_URL '' @ go_quote (url_String u)
                            @ '': missing hostname''))
         else if Port u = [] then
           (if Scheme u = ''http'' then Inr (JoinHostPort host ''80'')
            else if Scheme u = ''https'' then Inr (JoinHostPort host ''443'')
            else Inl (errors_New (''invalid BROWSERLESS_HTTP_URL '' @ go_quote (url_String u)
                                  @ '': unsupported scheme '' @ go_quote (Scheme u))))
         else Inr (JoinHostPort host (Port u)))"

definition wsSchemeForHTTPBase :: "URL \<Rightarrow> go_error + string" where
  "wsSchemeForHTTPBase u =
     (if Scheme u = ''http'' then Inr ''ws''
      else if Scheme u = ''https'' then Inr ''wss''
      else Inl (errors_New (''invalid BROWSERLESS_HTTP_URL '' @ go_quote (url_String u)
                            @ '': unsupported scheme '' @ go_quote (Scheme u))))"

text \<open>
  \<open>rewriteWebSocketDebuggerURL\<close> in two steps: \<open>rewrittenURL\<close> is the value of \<open>wsU\<close>
  after the two assignments, and the function returns its \<open>String()\<close>.
\<close>

definition rewrittenURL :: "string \<Rightarrow> URL \<Rightarrow> go_error + URL" where
  "rewrittenURL webSocketDebuggerURL httpBase =
     (let wsRaw = TrimSpace webSocketDebuggerURL
      in if wsRaw = [] then Inl (errors_New ''missing webSocketDebuggerUrl'')
         else case url_Parse wsRaw of
           Inl err \<Rightarrow>
             Inl (wrapError (''invalid webSocketDebuggerUrl '' @ go_quote wsRaw @ '': '') err)
         | Inr wsU \<Rightarrow>
             if Scheme wsU = [] \<or> Host wsU = [] then
               Inl (errors_New (''invalid webSocketDebuggerUrl '' @ go_quote wsRaw
                                @ '': missing scheme or host''))
             else case httpBaseHostPortWithDefault httpBase of
               Inl err \<Rightarrow> Inl err
             | Inr hostPort \<Rightarrow>
                 (case wsSchemeForHTTPBase httpBase of
                    Inl err \<Rightarrow> Inl err
                  | Inr desiredScheme \<Rightarrow>
                      Inr (wsU\<lparr>Scheme := desiredScheme, Host := hostPort\<rparr>)))"

definition rewriteWebSocketDebuggerURL :: "string \<Rightarrow> URL \<Rightarrow> go_error + string" where
  "rewriteWebSocketDebuggerURL webSocketDebuggerURL httpBase =
     map_sum id url_String (rewrittenURL webSocketDebuggerURL httpBase)"

definition httpBaseFromWSEndpoint :: "string \<Rightarrow> go_error + URL" where
  "httpBaseFromWSEndpoint wsRaw0 =
     (let wsRaw = TrimSpace wsRaw0
      in if wsRaw = [] then Inl (errors_New ''ws endpoint is empty'')
         else case url_Parse wsRaw of
           Inl err \<Rightarrow> Inl err
         | Inr u \<Rightarrow>
             if Scheme u \<noteq> ''ws'' \<and> Scheme u \<noteq> ''wss'' then
               Inl (errors_New (''scheme must be ws/wss, got '' @ go_quote (Scheme u)))
             else if Host u = [] then Inl (errors_New ''missing host'')
             else Inr (emptyURL\<lparr>Scheme := (if Scheme u = ''wss'' then ''https'' else ''http''),
                                Host := Host u, Path := Path u\<rparr>))"


subsection \<open>The control plane of the remote browser service\<close>

record browserlessVersionResponse =
  vrWebSocketDebuggerURL :: string

record browserlessCDPJSONPayload =
  Description :: string
  DevtoolsFrontendURL :: string
  ID :: string
  Title :: string
  Type :: string
  PayloadURL :: string
  WebSocketDebuggerURL :: string

text \<open>
  What one discovery call observes.  \<open>Failed err\<close>: building or sending the request
  failed (\<open>http.NewRequestWithContext\<close> or \<open>client.Do\<close> returned \<open>err\<close>, a deadline of
  the context included).  \<open>Response code body decoded\<close>: a response arrived with status
  \<open>code\<close> and text \<open>body\<close>; \<open>decoded\<close> is what \<open>json.Decoder.Decode\<close> makes of the body
  for the type the caller asks for.  Each of the three discovery calls is made at most
  once in a run, so the service is a record of three replies.
\<close>

datatype 'a http_reply = Failed go_error | Response int string "go_error + 'a"

record control_plane =
  json_version :: "browserlessVersionResponse http_reply"
  json_new :: "browserlessCDPJSONPayload http_reply"
  json_list :: "browserlessCDPJSONPayload list http_reply"

datatype http_method = GET | PUT

type_synonym http_call = "http_method \<times> string"

text \<open>The request URL: the base with \<open>/json/...\<close> appended to its path, trailing
  slashes trimmed first, query and fragment dropped.\<close>

definition endpointURL :: "URL \<Rightarrow> string \<Rightarrow> string" where
  "endpointURL httpBase suffix =
     url_String (httpBase\<lparr>Path := TrimRight (Path httpBase) (CHR ''/'') @ suffix,
                          RawQuery := [], Fragment := []\<rparr>)"

text \<open>The part the three resolvers share: the transport error, the status check with
  its message (at most 4096 bytes of the body), the decoding.\<close>

definition readReply :: "string \<Rightarrow> 'a http_reply \<Rightarrow> go_error + 'a" where
  "readReply endpoint reply =
     (case reply of
        Failed err \<Rightarrow> Inl err
      | Response code body decoded \<Rightarrow>
          if code < 200 \<or> code \<ge> 300 then
            Inl (errors_New (''browserless '' @ endpoint @ '' returned '' @ show_int code
                             @ '': '' @ TrimSpace (take 4096 body)))
          else decoded)"

text \<open>Every resolver returns its result together with the HTTP calls it made, in the
  order it made them.\<close>

definition resolveWSEndpointViaJSONNew ::
  "control_plane \<Rightarrow> URL \<Rightarrow> (go_error + string) \<times> http_call list" where
  "resolveWSEndpointViaJSONNew cp httpBase =
     ((case readReply ''/json/new'' (json_new cp) of
         Inl err \<Rightarrow> Inl err
       | Inr payload \<Rightarrow>
           if \<not> hasDevToolsPath (WebSocketDebuggerURL payload) then
             Inl (errors_New (''browserless /json/new returned non-devtools ws: ''
                              @ go_quote (TrimSpace (WebSocketDebuggerURL payload))))
           else rewriteWebSocketDebuggerURL (WebSocketDebuggerURL payload) httpBase),
      [(PUT, endpointURL httpBase ''/json/new'')])"

text \<open>The loop of \<open>resolveWSEndpointViaJSONList\<close> over the decoded targets.\<close>

fun scanPayloads :: "URL \<Rightarrow> browserlessCDPJSONPayload list \<Rightarrow> string option" where
  "scanPayloads httpBase [] = None"
| "scanPayloads httpBase (p # ps) =
     (if \<not> hasDevToolsPath (WebSocketDebuggerURL p) then scanPayloads httpBase ps
      else case rewriteWebSocketDebuggerURL (WebSocketDebuggerURL p) httpBase of
             Inl err \<Rightarrow> scanPayloads httpBase ps
           | Inr rewritten \<Rightarrow> Some rewritten)"

definition resolveWSEndpointViaJSONList ::
  "control_plane \<Rightarrow> URL \<Rightarrow> (go_error + string) \<times> http_call list" where
  "resolveWSEndpointViaJSONList cp httpBase =
     ((case readReply ''/json/list'' (json_list cp) of
         Inl err \<Rightarrow> Inl err
       | Inr payloads \<Rightarrow>
           (case scanPayloads httpBase payloads of
              Some rewritten \<Rightarrow> Inr rewritten
            | None \<Rightarrow>
                Inl (errors_New (''browserless /json/list returned ''
                                 @ show_int (int (length payloads))
                                 @ '' targets, but none has a usable devtools ws'')))),
      [(GET, endpointURL httpBase ''/json/list'')])"

definition resolveWSEndpointViaJSONVersion ::
  "control_plane \<Rightarrow> URL \<Rightarrow> (go_error + string) \<times> http_call list" where
  "resolveWSEndpointViaJSONVersion cp httpBase =
     (let versionCall = (GET, endpointURL httpBase ''/json/version'')
      in case readReply ''/json/version'' (json_version cp) of
           Inl err \<Rightarrow> (Inl err, [versionCall])
         | Inr vr \<Rightarrow>
             let raw = TrimSpace (vrWebSocketDebuggerURL vr)
             in if hasDevToolsPath raw
                then (rewriteWebSocketDebuggerURL raw httpBase, [versionCall])
                else case resolveWSEndpointViaJSONNew cp httpBase of
                       (Inr resolved, newCalls) \<Rightarrow> (Inr resolved, versionCall # newCalls)
                     | (Inl newErr, newCalls) \<Rightarrow>
                         (case resolveWSEndpointViaJSONList cp httpBase of
                            (Inr resolved, listCalls) \<Rightarrow>
                              (Inr resolved, versionCall # newCalls @ listCalls)
                          | (Inl listErr, listCalls) \<Rightarrow>
                              (Inl (errors_New
                                 (''browserless /json/version returned non-devtools ws (''
                                  @ go_quote raw
                                  @ '') and fallbacks (/json/new,/json/list) failed'')),
                               versionCall # newCalls @ listCalls)))"

text \<open>\<open>resolveWSEndpoint\<close> returns \<open>(wsURL, configured, err)\<close>; \<open>None\<close> is a nil error.\<close>

type_synonym resolution = "string \<times> bool \<times> go_error option"

text \<open>The common end of the two branches of \<open>resolveWSEndpoint\<close>: discovery from an
  HTTP base; the endpoint counts as configured whatever the outcome.\<close>

definition viaJSONVersion ::
  "control_plane \<Rightarrow> URL \<Rightarrow> resolution \<times> http_call list" where
  "viaJSONVersion cp httpBase =
     (case resolveWSEndpointViaJSONVersion cp httpBase of
        (Inl err, calls) \<Rightarrow> (([], True, Some err), calls)
      | (Inr resolved, calls) \<Rightarrow> ((resolved, True, None), calls))"

definition resolveWSEndpoint ::
  "environment \<Rightarrow> control_plane \<Rightarrow> resolution \<times> http_call list" where
  "resolveWSEndpoint env cp =
     (let ws = getChromeWSEndpoint env
      in if ws \<noteq> [] then
           (if (case url_Parse ws of
                  Inl parseErr \<Rightarrow> False
                | Inr u \<Rightarrow> HasPrefix (Path u) ''/devtools/browser/'')
            then ((ws, True, None), [])
            else case httpBaseFromWSEndpoint ws of
                   Inl convErr \<Rightarrow>
                     (([], True,
                       Some (wrapError (''invalid CHROME_WS_ENDPOINT '' @ go_quote ws @ '': '')
                               convErr)), [])
                 | Inr httpBase \<Rightarrow> viaJSONVersion cp httpBase)
         else
           let httpBaseRaw = getBrowserlessHTTPURL env
           in if httpBaseRaw = [] then
                (([], False, Some (errors_New ''browserless endpoint is not configured'')), [])
              else case parseBrowserlessHTTPBase httpBaseRaw of
                     Inl err \<Rightarrow> (([], True, Some err), [])
                   | Inr httpBase \<Rightarrow> viaJSONVersion cp httpBase)"

definition isTimeoutErr :: "go_error \<Rightarrow> bool" where
  "isTimeoutErr err =
     (isDeadlineExceeded err \<or> isCanceled err
      \<or> Contains (ToLower (Error err)) ''deadline exceeded'')"


section \<open>Screenshot requests\<close>

text \<open>
  Go's \<open>int\<close> fields are integers (no arithmetic is done on them, so no overflow can
  occur); \<open>float64\<close> fields are real numbers, the finite values a JSON number or a
  decimal query parameter can denote; the \<open>map[string]string\<close> of headers is an
  association list.  \<open>Clip = None\<close> is the nil pointer.
\<close>

definition defaultWidth :: int where "defaultWidth = 1920"
definition defaultHeight :: int where "defaultHeight = 1080"
definition defaultFormat :: string where "defaultFormat = ''png''"
definition defaultQuality :: int where "defaultQuality = 90"
definition defaultDeviceScale :: real where "defaultDeviceScale = 1.0"
definition defaultTimeoutSec :: int where "defaultTimeoutSec = 30"
definition maxTimeoutSec :: int where "maxTimeoutSec = 120"
definition maxAutoViewportHeight :: int where "maxAutoViewportHeight = 30000"

record Clip =
  X :: real
  Y :: real
  Width :: real
  Height :: real

record ScreenshotRequest =
  URL :: string
  Selector :: string
  Width :: int
  Height :: int
  Format :: string
  Quality :: int
  WaitTime :: int
  WaitFor :: string
  FullPage :: bool
  Headers :: "(string \<times> string) list"
  UserAgent :: string
  DeviceScale :: real
  Mobile :: bool
  Landscape :: bool
  Timeout :: int
  Clip :: "Clip option"

text \<open>The zero value of the struct: what \<open>var req ScreenshotRequest\<close> holds.\<close>

definition zeroRequest :: ScreenshotRequest where
  "zeroRequest = \<lparr>URL = [], Selector = [], Width = 0, Height = 0, Format = [], Quality = 0,
                   WaitTime = 0, WaitFor = [], FullPage = False, Headers = [], UserAgent = [],
                   DeviceScale = 0, Mobile = False, Landscape = False, Timeout = 0,
                   Clip = None\<rparr>"

definition applyDefaults :: "ScreenshotRequest \<Rightarrow> ScreenshotRequest" where
  "applyDefaults r0 =
     (let r1 = (if Width r0 = 0 then r0\<lparr>Width := defaultWidth\<rparr> else r0);
          r2 = (if Height r1 = 0 \<and> Selector r1 = [] then r1\<lparr>Height := defaultHeight\<rparr> else r1);
          r3 = (if Format r2 = [] then r2\<lparr>Format := defaultFormat\<rparr> else r2);
          r4 = (if Quality r3 = 0 then r3\<lparr>Quality := defaultQuality\<rparr> else r3);
          r5 = (if DeviceScale r4 = 0 then r4\<lparr>DeviceScale := defaultDeviceScale\<rparr> else r4)
      in if Timeout r5 = 0 then r5\<lparr>Timeout := defaultTimeoutSec\<rparr> else r5)"

text \<open>\<open>validate\<close> returns the first violated rule, or the request with its format
  lower-cased (the method writes \<open>r.Format = f\<close>).\<close>

definition validate :: "ScreenshotRequest \<Rightarrow> go_error + ScreenshotRequest" where
  "validate r =
     (if URL r = [] then Inl (errors_New ''url is required'')
      else if (case url_ParseRequestURI (URL r) of
                 Inl err \<Rightarrow> True
               | Inr parsedURL \<Rightarrow> Scheme parsedURL \<noteq> ''http'' \<and> Scheme parsedURL \<noteq> ''https'')
        then Inl (errors_New ''url must be a valid http/https URL'')
      else if Width r < 100 \<or> Width r > 4096
        then Inl (errors_New ''width must be between 100 and 4096'')
      else if Height r \<noteq> 0 \<and> (Height r < 100 \<or> Height r > 10000)
        then Inl (errors_New ''height must be between 100 and 10000'')
      else if Height r = 0 \<and> Selector r = []
        then Inl (errors_New ''height must be between 100 and 10000'')
      else let f = ToLower (Format r)
      in if f \<noteq> ''png'' \<and> f \<noteq> ''jpeg'' \<and> f \<noteq> ''webp''
        then Inl (errors_New ''format must be one of: png, jpeg, webp'')
      else if Quality r < 1 \<or> Quality r > 100
        then Inl (errors_New ''quality must be between 1 and 100'')
      else if Timeout r < 1 \<or> Timeout r > maxTimeoutSec
        then Inl (errors_New (''timeout must be between 1 and '' @ show_int maxTimeoutSec
                              @ '' seconds''))
      else if DeviceScale r \<le> 0 \<or> DeviceScale r > 4
        then Inl (errors_New ''device_scale must be between 0 and 4'')
      else if WaitTime r < 0
        then Inl (errors_New ''wait_time must be >= 0'')
      else case Clip r of
        None \<Rightarrow> Inr (r\<lparr>Format := f\<rparr>)
      | Some c \<Rightarrow>
          if Clip.Width c \<le> 0 \<or> Clip.Height c \<le> 0
            then Inl (errors_New ''clip width/height must be > 0'')
          else if X c < 0 \<or> Y c < 0
            then Inl (errors_New ''clip x/y must be >= 0'')
          else Inr (r\<lparr>Format := f\<rparr>))"

subsection \<open>Reading a request\<close>

text \<open>
  A query string is the list of its decoded key/value pairs, in order; \<open>c.Query\<close> gives
  the first value of a key, or the empty text.  \<open>strconv.Atoi\<close> and \<open>strconv.ParseBool\<close>
  are written out.  \<open>strconv.ParseFloat\<close> and \<open>json.Unmarshal\<close> into a
  \<open>map[string]string\<close> are library functions taken as parameters: whatever they return,
  the server does what the model does with it.
\<close>

type_synonym query = "(string \<times> string) list"

definition Query :: "query \<Rightarrow> string \<Rightarrow> string" where
  "Query q key = (case map_of q key of None \<Rightarrow> [] | Some v \<Rightarrow> v)"

definition DefaultQuery :: "query \<Rightarrow> string \<Rightarrow> string \<Rightarrow> string" where
  "DefaultQuery q key defaultValue = (case map_of q key of None \<Rightarrow> defaultValue | Some v \<Rightarrow> v)"

definition digitsValue :: "string \<Rightarrow> int" where
  "digitsValue ds = foldl (\<lambda>acc c. 10 * acc + (int (of_char c) - 48)) 0 ds"

definition Atoi :: "string \<Rightarrow> int option" where
  "Atoi s =
     (let neg = (s \<noteq> [] \<and> hd s = CHR ''-'');
          ds = (if s \<noteq> [] \<and> (hd s = CHR ''-'' \<or> hd s = CHR ''+'') then tl s else s);
          v = (if neg then - digitsValue ds else digitsValue ds)
      in if ds = [] \<or> \<not> list_all isDigit ds then None
         else if v < - (2 ^ 63) \<or> v > 2 ^ 63 - 1 then None
         else Some v)"

definition ParseBool :: "string \<Rightarrow> bool option" where
  "ParseBool str =
     (if str \<in> set [''1'', ''t'', ''T'', ''TRUE'', ''true'', ''True''] then Some True
      else if str \<in> set [''0'', ''f'', ''F'', ''FALSE'', ''false'', ''False''] then Some False
      else None)"

record library =
  ParseFloat :: "string \<Rightarrow> real option"
  UnmarshalHeaders :: "string \<Rightarrow> (string \<times> string) list option"

definition parseBoolQuery :: "query \<Rightarrow> string \<Rightarrow> bool \<Rightarrow> go_error + bool" where
  "parseBoolQuery q key defaultValue =
     (let v = Query q key
      in if v = [] then Inr defaultValue
         else case ParseBool v of
                None \<Rightarrow> Inl (errors_New (key @ '' must be boolean''))
              | Some b \<Rightarrow> Inr b)"

definition parseIntQuery :: "query \<Rightarrow> string \<Rightarrow> int \<Rightarrow> go_error + int" where
  "parseIntQuery q key defaultValue =
     (let v = Query q key
      in if v = [] then Inr defaultValue
         else case Atoi v of
                None \<Rightarrow> Inl (errors_New (key @ '' must be integer''))
              | Some i \<Rightarrow> Inr i)"

definition parseFloatQuery :: "library \<Rightarrow> query \<Rightarrow> string \<Rightarrow> real \<Rightarrow> go_error + real" where
  "parseFloatQuery lib q key defaultValue =
     (let v = Query q key
      in if v = [] then Inr defaultValue
         else case ParseFloat lib v of
                None \<Rightarrow> Inl (errors_New (key @ '' must be number''))
              | Some f \<Rightarrow> Inr f)"

text \<open>The pattern \<open>x, err := f(); if err != nil { return req, err }\<close>.\<close>

definition orReturn :: "go_error + 'a \<Rightarrow> ('a \<Rightarrow> go_error + 'b) \<Rightarrow> go_error + 'b" where
  "orReturn r k = (case r of Inl err \<Rightarrow> Inl err | Inr x \<Rightarrow> k x)"

definition parseRequestFromGET :: "library \<Rightarrow> query \<Rightarrow> go_error + ScreenshotRequest" where
  "parseRequestFromGET lib q =
     orReturn (parseIntQuery q ''width'' defaultWidth) (\<lambda>width.
     orReturn (parseIntQuery q ''height'' 0) (\<lambda>height.
     orReturn (parseIntQuery q ''quality'' defaultQuality) (\<lambda>quality.
     orReturn (parseIntQuery q ''wait_time'' 0) (\<lambda>waitTime.
     orReturn (parseIntQuery q ''timeout'' defaultTimeoutSec) (\<lambda>timeout.
     orReturn (parseFloatQuery lib q ''device_scale'' defaultDeviceScale) (\<lambda>deviceScale.
     orReturn (parseBoolQuery q ''full_page'' False) (\<lambda>fullPage.
     orReturn (parseBoolQuery q ''mobile'' False) (\<lambda>mobile.
     orReturn (parseBoolQuery q ''landscape'' False) (\<lambda>landscape.
     orReturn (if Query q ''headers'' \<noteq> [] then
                 (case UnmarshalHeaders lib (Query q ''headers'') of
                    None \<Rightarrow> Inl (errors_New ''headers must be a valid JSON object'')
                  | Some headers \<Rightarrow> Inr headers)
               else Inr []) (\<lambda>headers.
     Inr (zeroRequest\<lparr>URL := Query q ''url'', Selector := Query q ''selector'',
                      Format := DefaultQuery q ''format'' defaultFormat,
                      WaitFor := Query q ''wait_for'',
                      Width := width, Height := height, Quality := quality,
                      WaitTime := waitTime, Timeout := timeout, DeviceScale := deviceScale,
                      FullPage := fullPage, Mobile := mobile, Landscape := landscape,
                      UserAgent := Query q ''user_agent'',
                      Headers := headers\<rparr>)))))))))))"

text \<open>
  What the server receives on \<open>/screenshot\<close>: a GET with its query, or a POST whose body
  \<open>c.ShouldBindJSON\<close> binds to a request (absent fields keep the zero value), \<open>None\<close>
  when the binding fails.
\<close>

datatype http_request = Get query | Post "ScreenshotRequest option"

definition parseRequest :: "library \<Rightarrow> http_request \<Rightarrow> go_error + ScreenshotRequest" where
  "parseRequest lib c =
     (case c of
        Get q \<Rightarrow> parseRequestFromGET lib q
      | Post bound \<Rightarrow>
          (case bound of
             None \<Rightarrow> Inl (errors_New ''invalid JSON body'')
           | Some req \<Rightarrow> Inr (applyDefaults req)))"


section \<open>Capture orchestration\<close>

subsection \<open>The viewport and the list of actions\<close>

text \<open>The handler's \<open>viewportWidth\<close>, \<open>viewportHeight\<close> and
  \<open>autoExpandViewportHeight\<close>, as they stand after the mobile/landscape swap.\<close>

definition viewport :: "ScreenshotRequest \<Rightarrow> int \<times> int \<times> bool" where
  "viewport req =
     (let viewportWidth = Width req;
          viewportHeight = (if Height req = 0 then defaultHeight else Height req);
          autoExpandViewportHeight = (Selector req \<noteq> [] \<and> Height req = 0)
      in if Mobile req \<and> Landscape req
         then (viewportHeight, viewportWidth, autoExpandViewportHeight)
         else (viewportWidth, viewportHeight, autoExpandViewportHeight))"

text \<open>
  The actions handed to \<open>chromedp.Run\<close>, in order.  An action built by the library is
  named after its constructor.  The four \<open>chromedp.ActionFunc\<close> closures of the handler
  are \<open>AutoExpand\<close>, \<open>ClipToSelector\<close>, \<open>ClipToFullPage\<close> and \<open>Capture\<close>, each with the
  variables it captures; \<open>Capture\<close> holds the format, whether capture beyond the
  viewport is allowed, the quality when it is sent, and the clip of the request.
\<close>

datatype action =
    NetworkEnable
  | SetDeviceMetricsOverride int int real bool
  | SetUserAgentOverride string
  | SetExtraHTTPHeaders "(string \<times> string) list"
  | Navigate string
  | WaitReady string
  | WaitVisible string
  | Sleep int
  | AutoExpand int int real bool
  | ScrollIntoView string
  | ClipToSelector string
  | ClipToFullPage
  | Capture string bool "int option" "Clip option"

definition captureFormat :: "string \<Rightarrow> string" where
  "captureFormat format =
     (if ToLower format = ''jpeg'' then ''jpeg''
      else if ToLower format = ''webp'' then ''webp'' else ''png'')"

definition contentTypeForFormat :: "string \<Rightarrow> string" where
  "contentTypeForFormat format =
     (if ToLower format = ''jpeg'' then ''image/jpeg''
      else if ToLower format = ''webp'' then ''image/webp'' else ''image/png'')"

definition buildActions :: "ScreenshotRequest \<Rightarrow> action list" where
  "buildActions req =
     (case viewport req of
        (viewportWidth, viewportHeight, autoExpandViewportHeight) \<Rightarrow>
          [NetworkEnable,
           SetDeviceMetricsOverride viewportWidth viewportHeight (DeviceScale req) (Mobile req)]
          @ (if UserAgent req \<noteq> [] then [SetUserAgentOverride (UserAgent req)] else [])
          @ (if length (Headers req) > 0 then [SetExtraHTTPHeaders (Headers req)] else [])
          @ [Navigate (URL req), WaitReady ''body'']
          @ (if WaitFor req \<noteq> [] then [WaitVisible (WaitFor req)] else [])
          @ (if WaitTime req > 0 then [Sleep (WaitTime req)] else [])
          @ (if autoExpandViewportHeight
             then [AutoExpand viewportWidth viewportHeight (DeviceScale req) (Mobile req)]
             else [])
          @ (if Selector req \<noteq> []
             then [ScrollIntoView (Selector req), WaitVisible (Selector req),
                   ClipToSelector (Selector req)]
             else if FullPage req \<and> Clip req = None then [ClipToFullPage]
             else [])
          @ [Capture (captureFormat (Format req))
               (FullPage req \<and> Selector req = [] \<and> Clip req = None)
               (if Format req = ''jpeg'' \<or> Format req = ''webp'' then Some (Quality req)
                else None)
               (Clip req)])"

subsection \<open>The auto-expand action\<close>

text \<open>
  \<open>math.Ceil\<close> and the conversion \<open>int64(x)\<close> of a float64.  The conversion truncates;
  for a value outside the int64 range Go leaves the result to the implementation, and
  on amd64, for which the image is built, it is the smallest int64.
\<close>

definition math_Ceil :: "real \<Rightarrow> real" where
  "math_Ceil x = of_int \<lceil>x\<rceil>"

definition int64_of_float64 :: "real \<Rightarrow> int" where
  "int64_of_float64 x =
     (if x < - (2 ^ 63) \<or> 2 ^ 63 \<le> x then - (2 ^ 63)
      else if x < 0 then \<lceil>x\<rceil> else \<lfloor>x\<rfloor>)"

text \<open>
  What the browser answers while the action runs: \<open>layoutHeight\<close> is the height of the
  content size when \<open>page.GetLayoutMetrics\<close> succeeds with a content size, \<open>None\<close>
  otherwise; \<open>scriptHeight\<close> is the result of evaluating the fallback script;
  \<open>metricsReply\<close> is the error, if any, of re-applying the device metrics.
\<close>

record expand_probe =
  layoutHeight :: "real option"
  scriptHeight :: "go_error + real"
  metricsReply :: "go_error option"

text \<open>The measured page height of the action: layout metrics first, the script as
  the fallback.\<close>

definition measurePageHeight :: "expand_probe \<Rightarrow> go_error + real" where
  "measurePageHeight probe =
     (case layoutHeight probe of
        Some h \<Rightarrow> if h > 0 then Inr h else scriptHeight probe
      | None \<Rightarrow> scriptHeight probe)"

text \<open>
  The outcome of the action: the error it returns (\<open>None\<close> for nil), the value of the
  captured variable \<open>viewportHeight\<close> when it returns, and the device-metrics commands
  it sent.
\<close>

record expand_result =
  expandErr :: "go_error option"
  finalViewportHeight :: int
  metricsSent :: "action list"

definition autoExpand :: "expand_probe \<Rightarrow> int \<Rightarrow> int \<Rightarrow> real \<Rightarrow> bool \<Rightarrow> expand_result" where
  "autoExpand probe viewportWidth viewportHeight deviceScale mobile =
     (case measurePageHeight probe of
        Inl err \<Rightarrow>
          \<lparr>expandErr = Some err, finalViewportHeight = viewportHeight, metricsSent = []\<rparr>
      | Inr pageHeight \<Rightarrow>
          if pageHeight \<le> 0 then
            \<lparr>expandErr = Some (errors_New ''failed to determine page height''),
             finalViewportHeight = viewportHeight, metricsSent = []\<rparr>
          else
            let desired0 = int64_of_float64 (math_Ceil pageHeight);
                desired1 = (if desired0 < viewportHeight then viewportHeight else desired0);
                desired = (if desired1 > maxAutoViewportHeight then maxAutoViewportHeight
                           else desired1)
            in if desired \<noteq> viewportHeight then
                 \<lparr>expandErr = metricsReply probe, finalViewportHeight = desired,
                  metricsSent = [SetDeviceMetricsOverride viewportWidth desired deviceScale mobile]\<rparr>
               else
                 \<lparr>expandErr = None, finalViewportHeight = viewportHeight, metricsSent = []\<rparr>)"

subsection \<open>Responses and the classification of failures\<close>

text \<open>A JSON error body \<open>{"error": ..., "details": ...}\<close> with its status, or image
  bytes with their status and content type.\<close>

datatype response =
    JSONError int string "string option"
  | Data int string string

fun statusOf :: "response \<Rightarrow> int" where
  "statusOf (JSONError code msg details) = code"
| "statusOf (Data code contentType bytes) = code"

text \<open>The branch of the handler after a failed dial: \<open>dialExpired\<close> is
  \<open>errors.Is(dialCtx.Err(), context.DeadlineExceeded)\<close>.\<close>

definition dialFailure :: "bool \<Rightarrow> go_error \<Rightarrow> response" where
  "dialFailure dialExpired err =
     (if dialExpired \<or> isDeadlineExceeded err then
        JSONError 504 ''chrome dial timeout'' (Some (Error err))
      else
        let msg = ToLower (Error err)
        in if Contains msg ''websocket'' \<or> Contains msg ''handshake''
              \<or> Contains msg ''connect'' \<or> Contains msg ''dial'' then
             JSONError 502 ''failed to connect chrome endpoint''
               (Some (''dial failed: '' @ Error err))
           else if isTimeoutErr err then
             JSONError 504 ''chrome dial timeout'' (Some (Error err))
           else JSONError 502 ''failed to connect chrome endpoint'' (Some (Error err)))"

text \<open>The branch after a failed \<open>chromedp.Run\<close> of the actions.\<close>

definition runFailure :: "go_error \<Rightarrow> response" where
  "runFailure err =
     (if isTimeoutErr err then JSONError 504 ''screenshot timeout'' (Some (Error err))
      else
        let msg = ToLower (Error err)
        in if Contains msg ''websocket'' \<or> Contains msg ''handshake'' \<or> Contains msg ''connect''
           then JSONError 502 ''failed to connect chrome endpoint'' (Some (Error err))
           else JSONError 500 ''failed to screenshot'' (Some (Error err)))"

subsection \<open>The handlers\<close>

text \<open>
  The remote browser as the handler sees it: \<open>dialOutcome\<close> is \<open>None\<close> when the first
  \<open>chromedp.Run\<close> succeeds, else whether the dial context had expired and the error;
  \<open>runOutcome\<close> is what running the actions returns, the error or the image bytes.
\<close>

record browser =
  dialOutcome :: "(bool \<times> go_error) option"
  runOutcome :: "action list \<Rightarrow> go_error + string"

definition notConfiguredMessage :: string where
  "notConfiguredMessage =
     ''browserless/chrome endpoint is not configured, set BROWSERLESS_HTTP_URL or CHROME_WS_ENDPOINT''"

definition screenshotHandler ::
  "library \<Rightarrow> environment \<Rightarrow> control_plane \<Rightarrow> browser \<Rightarrow> http_request \<Rightarrow> response" where
  "screenshotHandler lib env cp chrome c =
     (case parseRequest lib c of
        Inl err \<Rightarrow> JSONError 400 (Error err) None
      | Inr parsed \<Rightarrow>
          (case validate (applyDefaults parsed) of
             Inl err \<Rightarrow> JSONError 400 (Error err) None
           | Inr req \<Rightarrow>
               (case fst (resolveWSEndpoint env cp) of
                  (wsURL, configured, resolveErr) \<Rightarrow>
                    if \<not> configured then JSONError 503 notConfiguredMessage None
                    else case resolveErr of
                      Some err \<Rightarrow>
                        if isTimeoutErr err
                        then JSONError 504 ''browserless endpoint timeout'' (Some (Error err))
                        else JSONError 502 ''failed to resolve browserless websocket endpoint''
                               (Some (Error err))
                    | None \<Rightarrow>
                        (case dialOutcome chrome of
                           Some (dialExpired, err) \<Rightarrow> dialFailure dialExpired err
                         | None \<Rightarrow>
                             (case runOutcome chrome (buildActions req) of
                                Inl err \<Rightarrow> runFailure err
                              | Inr img \<Rightarrow> Data 200 (contentTypeForFormat (Format req)) img)))))"

text \<open>The body of \<open>/health\<close>, without its time stamp.\<close>

record health_payload =
  status :: string
  chrome_ws_configured :: bool
  chrome_ws_available :: bool
  browserless_http_url :: string
  chrome_ws_endpoint :: string
  details :: "string option"

definition healthHandler :: "environment \<Rightarrow> control_plane \<Rightarrow> int \<times> health_payload" where
  "healthHandler env cp =
     (case fst (resolveWSEndpoint env cp) of
        (wsURL, configured, err) \<Rightarrow>
          let available = (configured \<and> err = None \<and> wsURL \<noteq> [])
          in (if available then 200 else 503,
              \<lparr>status = (if available then ''ok'' else ''degraded''),
               chrome_ws_configured = configured,
               chrome_ws_available = available,
               browserless_http_url = getBrowserlessHTTPURL env,
               chrome_ws_endpoint = wsURL,
               details = map_option Error err\<rparr>))"


section \<open>Notions used in the statements\<close>

text \<open>The request as it is read from the wire, before any defaulting: the binding of
  the JSON body for a POST, the parsed query for a GET.\<close>

definition boundRequest :: "library \<Rightarrow> http_request \<Rightarrow> go_error + ScreenshotRequest" where
  "boundRequest lib c =
     (case c of
        Get q \<Rightarrow> parseRequestFromGET lib q
      | Post bound \<Rightarrow>
          (case bound of
             None \<Rightarrow> Inl (errors_New ''invalid JSON body'')
           | Some req \<Rightarrow> Inr req))"

text \<open>The actions that commit a viewport to the browser.\<close>

fun isDeviceMetrics :: "action \<Rightarrow> bool" where
  "isDeviceMetrics (SetDeviceMetricsOverride w h s m) = True"
| "isDeviceMetrics a = False"

text \<open>The auto-expand action among the actions.\<close>

fun isAutoExpand :: "action \<Rightarrow> bool" where
  "isAutoExpand (AutoExpand w h s m) = True"
| "isAutoExpand a = False"

text \<open>Whether the lower-cased text of an error contains one of the given words.\<close>

definition mentions :: "string list \<Rightarrow> go_error \<Rightarrow> bool" where
  "mentions words err = list_ex (Contains (ToLower (Error err))) words"

text \<open>A target carries the \<open>/devtools/\<close> prefix when its WebSocket URL does; it is
  usable when, moreover, that URL can be rewritten.\<close>

definition carriesDevToolsPath :: "browserlessCDPJSONPayload \<Rightarrow> bool" where
  "carriesDevToolsPath p = hasDevToolsPath (WebSocketDebuggerURL p)"

definition usableTarget :: "URL \<Rightarrow> browserlessCDPJSONPayload \<Rightarrow> bool" where
  "usableTarget httpBase p =
     (hasDevToolsPath (WebSocketDebuggerURL p)
      \<and> \<not> isl (rewriteWebSocketDebuggerURL (WebSocketDebuggerURL p) httpBase))"

text \<open>The environment is not configured when \<open>CHROME_WS_ENDPOINT\<close> is unset or blank
  and \<open>BROWSERLESS_HTTP_URL\<close> is set to a blank value.\<close>

definition notConfigured :: "environment \<Rightarrow> bool" where
  "notConfigured env =
     (TrimSpace (os_Getenv (CHROME_WS_ENDPOINT env)) = []
      \<and> (case BROWSERLESS_HTTP_URL env of None \<Rightarrow> False | Some v \<Rightarrow> TrimSpace v = []))"

text \<open>Values for the examples: a target of which only the WebSocket URL is set, a
  control plane that refuses every connection, and library functions that refuse every
  text.\<close>

definition targetWithURL :: "string \<Rightarrow> browserlessCDPJSONPayload" where
  "targetWithURL ws = \<lparr>Description = [], DevtoolsFrontendURL = [], ID = [], Title = [],
                        Type = [], PayloadURL = [], WebSocketDebuggerURL = ws\<rparr>"

definition unreachable :: control_plane where
  "unreachable = \<lparr>json_version = Failed (errors_New ''connection refused''),
                   json_new = Failed (errors_New ''connection refused''),
                   json_list = Failed (errors_New ''connection refused'')\<rparr>"

definition noLibrary :: library where
  "noLibrary = \<lparr>ParseFloat = (\<lambda>s. None), UnmarshalHeaders = (\<lambda>s. None)\<rparr>"

text \<open>A configuration that names a full browser endpoint, used without discovery.\<close>

definition directEndpoint :: environment where
  "directEndpoint = \<lparr>CHROME_WS_ENDPOINT = Some ''ws://127.0.0.1:9222/devtools/browser/abc'',
                       BROWSERLESS_HTTP_URL = None\<rparr>"

text \<open>A browser that dials and captures an empty image whatever the actions.\<close>

definition readyBrowser :: browser where
  "readyBrowser = \<lparr>dialOutcome = None, runOutcome = (\<lambda>actions. Inr [])\<rparr>"

section \<open>Properties of the endpoint rewrite\<close>

lemma splitLast_append:
  assumes "sep \<notin> set p"
  shows "splitLast (h @ sep # p) sep = Some (h, sep # p)"
proof -
  have "takeWhile (\<lambda>c. c \<noteq> sep) (rev p @ sep # rev h) = rev p"
    using assms by (subst takeWhile_append2) auto
  then show ?thesis by (simp add: splitLast_def)
qed

lemma digits_no_colon: "list_all isDigit p \<Longrightarrow> CHR '':'' \<notin> set p"
  by (auto simp: list_all_iff isDigit_def)

lemma splitHostPort_plain:
  assumes "list_all isDigit p" "\<not> HasPrefix h ''[''"
  shows "splitHostPort (h @ CHR '':'' # p) = (h, p)"
  using assms splitLast_append [OF digits_no_colon [OF assms(1)], of h]
  by (simp add: splitHostPort_def validOptionalPort_def)

lemma url_Parse_empty: "url_Parse [] = Inr emptyURL"
  by (simp add: url_Parse_def Cut_def parse_def emptyURL_def HasSuffix_def HasPrefix_def
      count_byte_def ToLower_def)

lemma rewrittenURL_ok:
  assumes "url_Parse (TrimSpace ws) = Inr wsU" "Scheme wsU \<noteq> []" "Host wsU \<noteq> []"
    and "Scheme base = ''http'' \<or> Scheme base = ''https''" "Hostname base \<noteq> []"
  shows "rewrittenURL ws base =
           Inr (wsU\<lparr>Scheme := (if Scheme base = ''http'' then ''ws'' else ''wss''),
                    Host := JoinHostPort (Hostname base)
                              (if Port base \<noteq> [] then Port base
                               else if Scheme base = ''http'' then ''80'' else ''443'')\<rparr>)"
proof -
  have ne: "TrimSpace ws \<noteq> []"
    using assms(1,2) url_Parse_empty by (auto simp: emptyURL_def)
  show ?thesis
    using assms ne
    by (auto simp: rewrittenURL_def httpBaseHostPortWithDefault_def wsSchemeForHTTPBase_def
        Let_def)
qed

text \<open>
  Claim C1.  Let the discovered WebSocket debugger URL parse to \<open>wsU\<close> with a scheme and
  a host, and let the control-plane base have scheme http or https and a host name.
  Then the rewrite succeeds and returns the text of a URL \<open>out\<close> whose scheme is ws for
  an http base and wss for an https base, whose host is the host name of the base joined
  with its port (80 for http and 443 for https when the base has none), which is the
  authority of the base as written when that is a plain \<open>host:port\<close>, and whose path and
  every other field are those of \<open>wsU\<close>.  In particular
  \<open>ws://0.0.0.0:3000/devtools/browser/abc\<close> against the base
  \<open>https://example.com:8443\<close> gives exactly
  \<open>wss://example.com:8443/devtools/browser/abc\<close>.
\<close>

theorem rewrite_authority:
  "(url_Parse (TrimSpace ws) = Inr wsU \<and> Scheme wsU \<noteq> [] \<and> Host wsU \<noteq> []
      \<and> (Scheme base = ''http'' \<or> Scheme base = ''https'') \<and> Hostname base \<noteq> []
    \<longrightarrow> (\<exists>out. rewrittenURL ws base = Inr out
           \<and> rewriteWebSocketDebuggerURL ws base = Inr (url_String out)
           \<and> Scheme out = (if Scheme base = ''http'' then ''ws'' else ''wss'')
           \<and> Host out = JoinHostPort (Hostname base)
                          (if Port base \<noteq> [] then Port base
                           else if Scheme base = ''http'' then ''80'' else ''443'')
           \<and> (\<forall>h p. Host base = h @ CHR '':'' # p \<and> p \<noteq> [] \<and> list_all isDigit p
                     \<and> CHR '':'' \<notin> set h \<and> \<not> HasPrefix h ''[''
                  \<longrightarrow> Host out = Host base)
           \<and> Path out = Path wsU
           \<and> out = wsU\<lparr>Scheme := Scheme out, Host := Host out\<rparr>))
   \<and> (\<exists>base'. parseBrowserlessHTTPBase ''https://example.com:8443'' = Inr base'
         \<and> rewriteWebSocketDebuggerURL ''ws://0.0.0.0:3000/devtools/browser/abc'' base'
             = Inr ''wss://example.com:8443/devtools/browser/abc'')"
proof (intro conjI impI)
  assume h: "url_Parse (TrimSpace ws) = Inr wsU \<and> Scheme wsU \<noteq> [] \<and> Host wsU \<noteq> []
      \<and> (Scheme base = ''http'' \<or> Scheme base = ''https'') \<and> Hostname base \<noteq> []"
  let ?port = "if Port base \<noteq> [] then Port base
               else if Scheme base = ''http'' then ''80'' else ''443''"
  let ?out = "wsU\<lparr>Scheme := (if Scheme base = ''http'' then ''ws'' else ''wss''),
                   Host := JoinHostPort (Hostname base) ?port\<rparr>"
  have r: "rewrittenURL ws base = Inr ?out"
    using h by (intro rewrittenURL_ok) auto
  have same: "Host ?out = Host base"
    if a: "Host base = h @ CHR '':'' # p \<and> p \<noteq> [] \<and> list_all isDigit p
           \<and> CHR '':'' \<notin> set h \<and> \<not> HasPrefix h ''[''" for h p
  proof -
    have "splitHostPort (Host base) = (h, p)"
      using a splitHostPort_plain [of p h] by simp
    then show ?thesis
      using a by (simp add: Hostname_def Port_def JoinHostPort_def)
  qed
  show "\<exists>out. rewrittenURL ws base = Inr out
           \<and> rewriteWebSocketDebuggerURL ws base = Inr (url_String out)
           \<and> Scheme out = (if Scheme base = ''http'' then ''ws'' else ''wss'')
           \<and> Host out = JoinHostPort (Hostname base)
                          (if Port base \<noteq> [] then Port base
                           else if Scheme base = ''http'' then ''80'' else ''443'')
           \<and> (\<forall>h p. Host base = h @ CHR '':'' # p \<and> p \<noteq> [] \<and> list_all isDigit p
                     \<and> CHR '':'' \<notin> set h \<and> \<not> HasPrefix h ''[''
                  \<longrightarrow> Host out = Host base)
           \<and> Path out = Path wsU
           \<and> out = wsU\<lparr>Scheme := Scheme out, Host := Host out\<rparr>"
  proof (intro exI [of _ ?out] conjI)
    show "\<forall>h p. Host base = h @ CHR '':'' # p \<and> p \<noteq> [] \<and> list_all isDigit p
                     \<and> CHR '':'' \<notin> set h \<and> \<not> HasPrefix h ''[''
                  \<longrightarrow> Host ?out = Host base"
      using same by blast
  qed (simp_all add: r rewriteWebSocketDebuggerURL_def)
next
  show "\<exists>base'. parseBrowserlessHTTPBase ''https://example.com:8443'' = Inr base'
         \<and> rewriteWebSocketDebuggerURL ''ws://0.0.0.0:3000/devtools/browser/abc'' base'
             = Inr ''wss://example.com:8443/devtools/browser/abc''"
  proof (intro exI conjI)
    show "parseBrowserlessHTTPBase ''https://example.com:8443''
            = Inr (emptyURL\<lparr>Scheme := ''https'', Host := ''example.com:8443''\<rparr>)"
      by code_simp
    show "rewriteWebSocketDebuggerURL ''ws://0.0.0.0:3000/devtools/browser/abc''
            (emptyURL\<lparr>Scheme := ''https'', Host := ''example.com:8443''\<rparr>)
          = Inr ''wss://example.com:8443/devtools/browser/abc''"
      by code_simp
  qed
qed

text \<open>The rule at a service that advertises an internal address: the base
  \<open>http://chrome.internal\<close> has no port, so port 80 is supplied.\<close>

theorem rewrite_authority_witness:
  "url_Parse (TrimSpace '' ws://10.0.0.5:9222/devtools/page/7 '')
     = Inr (emptyURL\<lparr>Scheme := ''ws'', Host := ''10.0.0.5:9222'', Path := ''/devtools/page/7''\<rparr>)
   \<and> Hostname (emptyURL\<lparr>Scheme := ''http'', Host := ''chrome.internal''\<rparr>) = ''chrome.internal''
   \<and> (\<exists>out. rewriteWebSocketDebuggerURL '' ws://10.0.0.5:9222/devtools/page/7 ''
                (emptyURL\<lparr>Scheme := ''http'', Host := ''chrome.internal''\<rparr>)
              = Inr (url_String out)
            \<and> Scheme out = ''ws'' \<and> Host out = ''chrome.internal:80''
            \<and> Path out = ''/devtools/page/7'')"
proof -
  let ?ws = "'' ws://10.0.0.5:9222/devtools/page/7 ''"
  let ?W = "emptyURL\<lparr>Scheme := ''ws'', Host := ''10.0.0.5:9222'', Path := ''/devtools/page/7''\<rparr>"
  let ?base = "emptyURL\<lparr>Scheme := ''http'', Host := ''chrome.internal''\<rparr>"
  have p: "url_Parse (TrimSpace ?ws) = Inr ?W"
    by code_simp
  have hn: "Hostname ?base = ''chrome.internal''" and po: "Port ?base = []"
    by code_simp+
  have hyp: "url_Parse (TrimSpace ?ws) = Inr ?W \<and> Scheme ?W \<noteq> [] \<and> Host ?W \<noteq> []
      \<and> (Scheme ?base = ''http'' \<or> Scheme ?base = ''https'') \<and> Hostname ?base \<noteq> []"
    using p hn by (simp add: emptyURL_def)
  from rewrite_authority [of ?ws ?W ?base, THEN conjunct1, rule_format, OF hyp]
  obtain out where o: "rewriteWebSocketDebuggerURL ?ws ?base = Inr (url_String out)"
    "Scheme out = (if Scheme ?base = ''http'' then ''ws'' else ''wss'')"
    "Host out = JoinHostPort (Hostname ?base)
                  (if Port ?base \<noteq> [] then Port ?base
                   else if Scheme ?base = ''http'' then ''80'' else ''443'')"
    "Path out = Path ?W"
    by blast
  have "Scheme out = ''ws''" "Host out = ''chrome.internal:80''" "Path out = ''/devtools/page/7''"
    using o(2-4) hn po by (simp_all add: emptyURL_def JoinHostPort_def)
  with o(1) p hn show ?thesis by blast
qed

section \<open>Properties of defaulting and validation\<close>

lemmas defaults =
  defaultWidth_def defaultHeight_def defaultFormat_def defaultQuality_def
  defaultDeviceScale_def defaultTimeoutSec_def

lemma if_Width: "(if c then x\<lparr>Width := d\<rparr> else x) = x\<lparr>Width := (if c then d else Width x)\<rparr>"
  by simp
lemma if_Height: "(if c then x\<lparr>Height := d\<rparr> else x) = x\<lparr>Height := (if c then d else Height x)\<rparr>"
  by simp
lemma if_Format: "(if c then x\<lparr>Format := d\<rparr> else x) = x\<lparr>Format := (if c then d else Format x)\<rparr>"
  by simp
lemma if_Quality: "(if c then x\<lparr>Quality := d\<rparr> else x) = x\<lparr>Quality := (if c then d else Quality x)\<rparr>"
  by simp
lemma if_DeviceScale: "(if c then x\<lparr>DeviceScale := d\<rparr> else x) = x\<lparr>DeviceScale := (if c then d else DeviceScale x)\<rparr>"
  by simp
lemma if_Timeout: "(if c then x\<lparr>Timeout := d\<rparr> else x) = x\<lparr>Timeout := (if c then d else Timeout x)\<rparr>"
  by simp

text \<open>Defaulting as one update of the six fields it may change.\<close>

lemma applyDefaults_alt:
  "applyDefaults r =
     r\<lparr>Width := (if Width r = 0 then 1920 else Width r),
       Height := (if Height r = 0 \<and> Selector r = [] then 1080 else Height r),
       Format := (if Format r = [] then ''png'' else Format r),
       Quality := (if Quality r = 0 then 90 else Quality r),
       DeviceScale := (if DeviceScale r = 0 then 1 else DeviceScale r),
       Timeout := (if Timeout r = 0 then 30 else Timeout r)\<rparr>"
  unfolding applyDefaults_def Let_def if_Width if_Height if_Format if_Quality if_DeviceScale if_Timeout defaults
  by (simp split del: if_split cong: if_cong)

lemma default_again:
  "d \<noteq> z \<Longrightarrow> (if (if v = z then d else v) = z then d else (if v = z then d else v))
                = (if v = z then d else v)"
  by simp

lemma default_height_again:
  "(if (if h = 0 \<and> sel = [] then 1080 else h) = (0::int) \<and> sel = [] then 1080
    else (if h = 0 \<and> sel = [] then 1080 else h))
   = (if h = 0 \<and> sel = [] then 1080 else h)"
  by simp

lemma applyDefaults_twice: "applyDefaults (applyDefaults r) = applyDefaults r"
  unfolding applyDefaults_alt [of "applyDefaults r"]
  unfolding applyDefaults_alt [of r]
  by (simp add: default_again default_height_again split del: if_split cong: if_cong)

text \<open>
  Claim C9.  Defaulting is idempotent: applying \<open>applyDefaults\<close> twice gives what
  applying it once gives.  A POST request is defaulted by \<open>parseRequest\<close> and again by
  the handler, which therefore validates \<open>applyDefaults\<close> of the bound request.
\<close>

theorem applyDefaults_idempotent:
  "applyDefaults (applyDefaults r) = applyDefaults r
   \<and> map_sum id applyDefaults (parseRequest lib (Post (Some r))) = Inr (applyDefaults r)"
  by (simp add: parseRequest_def applyDefaults_twice)

lemma timeout_message:
  "''timeout must be between 1 and '' @ show_int maxTimeoutSec @ '' seconds''
     = ''timeout must be between 1 and 120 seconds''"
  by code_simp

lemma validate_Inr: "validate r = Inr r' \<Longrightarrow> r' = r\<lparr>Format := ToLower (Format r)\<rparr>"
  by (auto simp: validate_def Let_def split: if_splits option.splits)

lemma validate_width_error:
  "validate x = Inl e \<Longrightarrow> Error e = ''width must be between 100 and 4096''
     \<Longrightarrow> Width x < 100 \<or> Width x > 4096"
  by (auto simp: validate_def Let_def errors_New_def timeout_message split: if_splits option.splits)

lemma validate_quality_error:
  "validate x = Inl e \<Longrightarrow> Error e = ''quality must be between 1 and 100''
     \<Longrightarrow> Quality x < 1 \<or> Quality x > 100"
  by (auto simp: validate_def Let_def errors_New_def timeout_message split: if_splits option.splits)

lemma validate_timeout_error:
  "validate x = Inl e \<Longrightarrow> Error e = ''timeout must be between 1 and 120 seconds''
     \<Longrightarrow> Timeout x < 1 \<or> Timeout x > 120"
  by (auto simp: validate_def Let_def errors_New_def timeout_message maxTimeoutSec_def split: if_splits option.splits)

lemma validate_scale_error:
  "validate x = Inl e \<Longrightarrow> Error e = ''device_scale must be between 0 and 4''
     \<Longrightarrow> DeviceScale x \<le> 0 \<or> DeviceScale x > 4"
  by (auto simp: validate_def Let_def errors_New_def timeout_message split: if_splits option.splits)

lemma statusOf_dialFailure: "statusOf (dialFailure x err) \<noteq> 400"
  by (simp add: dialFailure_def Let_def)

lemma statusOf_runFailure: "statusOf (runFailure err) \<noteq> 400"
  by (simp add: runFailure_def Let_def)

lemma handler_400:
  assumes "screenshotHandler lib env cp chrome c = JSONError 400 m d"
  shows "(\<exists>e. parseRequest lib c = Inl e \<and> Error e = m)
         \<or> (\<exists>p e. parseRequest lib c = Inr p \<and> validate (applyDefaults p) = Inl e \<and> Error e = m)"
proof (cases "parseRequest lib c")
  case (Inl e)
  then show ?thesis using assms by (simp add: screenshotHandler_def)
next
  case (Inr p)
  show ?thesis
  proof (cases "validate (applyDefaults p)")
    case (Inl e)
    then show ?thesis using assms Inr by (simp add: screenshotHandler_def)
  next
    case r: (Inr req)
    have "statusOf (screenshotHandler lib env cp chrome c) \<noteq> 400"
      using Inr r statusOf_dialFailure statusOf_runFailure
      by (auto simp: screenshotHandler_def split: prod.splits option.splits sum.splits)
    then show ?thesis using assms by simp
  qed
qed

lemma parseRequest_bound:
  "boundRequest lib c = Inr b \<Longrightarrow>
     \<exists>p. parseRequest lib c = Inr p \<and> applyDefaults p = applyDefaults b"
  by (auto simp: boundRequest_def parseRequest_def applyDefaults_twice
      split: http_request.splits option.splits)

lemma handler_rejects:
  assumes "boundRequest lib c = Inr b"
    and "screenshotHandler lib env cp chrome c = JSONError 400 m d"
  shows "\<exists>e. validate (applyDefaults b) = Inl e \<and> Error e = m"
  using handler_400 [OF assms(2)] parseRequest_bound [OF assms(1)] by auto

text \<open>
  Claim C10.  Let \<open>b\<close> be the request as read from the wire (POST body or GET query).
  For each of width, quality, device_scale and timeout: when \<open>b\<close> holds the zero
  value, defaulting replaces it by 1920, 90, 1.0 and 30, and the handler does not answer
  with the range error of that field.  A zero is not told apart from the default: the
  defaulted request is the same for both.  A POST body with \<open>"quality": 0\<close> and a valid
  URL passes validation with quality 90, and with a reachable browser the handler
  answers 200.
\<close>

theorem zero_is_unset:
  "(boundRequest lib c = Inr b \<longrightarrow>
      (Width b = 0 \<longrightarrow>
         Width (applyDefaults b) = 1920
         \<and> screenshotHandler lib env cp chrome c
             \<noteq> JSONError 400 ''width must be between 100 and 4096'' None)
    \<and> (Quality b = 0 \<longrightarrow>
         Quality (applyDefaults b) = 90
         \<and> screenshotHandler lib env cp chrome c
             \<noteq> JSONError 400 ''quality must be between 1 and 100'' None)
    \<and> (DeviceScale b = 0 \<longrightarrow>
         DeviceScale (applyDefaults b) = 1
         \<and> screenshotHandler lib env cp chrome c
             \<noteq> JSONError 400 ''device_scale must be between 0 and 4'' None)
    \<and> (Timeout b = 0 \<longrightarrow>
         Timeout (applyDefaults b) = 30
         \<and> screenshotHandler lib env cp chrome c
             \<noteq> JSONError 400 ''timeout must be between 1 and 120 seconds'' None))
   \<and> applyDefaults (r\<lparr>Width := 0\<rparr>) = applyDefaults (r\<lparr>Width := 1920\<rparr>)
   \<and> applyDefaults (r\<lparr>Quality := 0\<rparr>) = applyDefaults (r\<lparr>Quality := 90\<rparr>)
   \<and> applyDefaults (r\<lparr>DeviceScale := 0\<rparr>) = applyDefaults (r\<lparr>DeviceScale := 1\<rparr>)
   \<and> applyDefaults (r\<lparr>Timeout := 0\<rparr>) = applyDefaults (r\<lparr>Timeout := 30\<rparr>)
   \<and> (\<exists>req. validate (applyDefaults (zeroRequest\<lparr>URL := ''https://example.com'', Quality := 0\<rparr>))
                = Inr req \<and> Quality req = 90)
   \<and> screenshotHandler lib
         \<lparr>CHROME_WS_ENDPOINT = Some ''ws://127.0.0.1:9222/devtools/browser/abc'',
          BROWSERLESS_HTTP_URL = None\<rparr>
         cp \<lparr>dialOutcome = None, runOutcome = (\<lambda>actions. Inr img)\<rparr>
         (Post (Some (zeroRequest\<lparr>URL := ''https://example.com'', Quality := 0\<rparr>)))
       = Data 200 ''image/png'' img"
proof (intro conjI impI)
  assume b: "boundRequest lib c = Inr b"
  { assume z: "Width b = 0"
    show "Width (applyDefaults b) = 1920" using z by (simp add: applyDefaults_alt)
    show "screenshotHandler lib env cp chrome c
             \<noteq> JSONError 400 ''width must be between 100 and 4096'' None"
    proof
      assume "screenshotHandler lib env cp chrome c
                = JSONError 400 ''width must be between 100 and 4096'' None"
      from handler_rejects [OF b this] obtain e where
        "validate (applyDefaults b) = Inl e" "Error e = ''width must be between 100 and 4096''"
        by blast
      from validate_width_error [OF this] show False using z by (simp add: applyDefaults_alt)
    qed }
  { assume z: "Quality b = 0"
    show "Quality (applyDefaults b) = 90" using z by (simp add: applyDefaults_alt)
    show "screenshotHandler lib env cp chrome c
             \<noteq> JSONError 400 ''quality must be between 1 and 100'' None"
    proof
      assume "screenshotHandler lib env cp chrome c
                = JSONError 400 ''quality must be between 1 and 100'' None"
      from handler_rejects [OF b this] obtain e where
        "validate (applyDefaults b) = Inl e" "Error e = ''quality must be between 1 and 100''"
        by blast
      from validate_quality_error [OF this] show False using z by (simp add: applyDefaults_alt)
    qed }
  { assume z: "DeviceScale b = 0"
    show "DeviceScale (applyDefaults b) = 1" using z by (simp add: applyDefaults_alt)
    show "screenshotHandler lib env cp chrome c
             \<noteq> JSONError 400 ''device_scale must be between 0 and 4'' None"
    proof
      assume "screenshotHandler lib env cp chrome c
                = JSONError 400 ''device_scale must be between 0 and 4'' None"
      from handler_rejects [OF b this] obtain e where
        "validate (applyDefaults b) = Inl e" "Error e = ''device_scale must be between 0 and 4''"
        by blast
      from validate_scale_error [OF this] show False using z by (simp add: applyDefaults_alt)
    qed }
  { assume z: "Timeout b = 0"
    show "Timeout (applyDefaults b) = 30" using z by (simp add: applyDefaults_alt)
    show "screenshotHandler lib env cp chrome c
             \<noteq> JSONError 400 ''timeout must be between 1 and 120 seconds'' None"
    proof
      assume "screenshotHandler lib env cp chrome c
                = JSONError 400 ''timeout must be between 1 and 120 seconds'' None"
      from handler_rejects [OF b this] obtain e where
        "validate (applyDefaults b) = Inl e"
        "Error e = ''timeout must be between 1 and 120 seconds''"
        by blast
      from validate_timeout_error [OF this] show False using z by (simp add: applyDefaults_alt)
    qed }
next
  show "applyDefaults (r\<lparr>Width := 0\<rparr>) = applyDefaults (r\<lparr>Width := 1920\<rparr>)"
    by (simp add: applyDefaults_alt)
  show "applyDefaults (r\<lparr>Quality := 0\<rparr>) = applyDefaults (r\<lparr>Quality := 90\<rparr>)"
    by (simp add: applyDefaults_alt)
  show "applyDefaults (r\<lparr>DeviceScale := 0\<rparr>) = applyDefaults (r\<lparr>DeviceScale := 1\<rparr>)"
    by (simp add: applyDefaults_alt)
  show "applyDefaults (r\<lparr>Timeout := 0\<rparr>) = applyDefaults (r\<lparr>Timeout := 30\<rparr>)"
    by (simp add: applyDefaults_alt)
  let ?b = "zeroRequest\<lparr>URL := ''https://example.com'', Quality := 0\<rparr>"
  let ?req = "zeroRequest\<lparr>URL := ''https://example.com'', Width := 1920, Height := 1080,
                Format := ''png'', Quality := 90, DeviceScale := 1, Timeout := 30\<rparr>"
  have d: "applyDefaults ?b = ?req"
    by (simp add: applyDefaults_alt zeroRequest_def)
  have v: "validate ?req = Inr ?req"
    by code_simp
  show "\<exists>req. validate (applyDefaults ?b) = Inr req \<and> Quality req = 90"
    using d v by (simp add: zeroRequest_def)
  have res: "fst (resolveWSEndpoint
                \<lparr>CHROME_WS_ENDPOINT = Some ''ws://127.0.0.1:9222/devtools/browser/abc'',
                 BROWSERLESS_HTTP_URL = None\<rparr> cp)
             = (''ws://127.0.0.1:9222/devtools/browser/abc'', True, None)"
    by code_simp
  show "screenshotHandler lib
         \<lparr>CHROME_WS_ENDPOINT = Some ''ws://127.0.0.1:9222/devtools/browser/abc'',
          BROWSERLESS_HTTP_URL = None\<rparr>
         cp \<lparr>dialOutcome = None, runOutcome = (\<lambda>actions. Inr img)\<rparr>
         (Post (Some ?b))
       = Data 200 ''image/png'' img"
  proof -
    have d2: "applyDefaults ?req = ?req"
      using applyDefaults_twice [of ?b] d by simp
    have ct: "contentTypeForFormat ''png'' = ''image/png''"
      by code_simp
    show ?thesis
      using d d2 v res ct
      by (simp add: screenshotHandler_def parseRequest_def zeroRequest_def)
  qed
qed


theorem zero_is_unset_witness:
  "boundRequest \<lparr>ParseFloat = (\<lambda>s. None), UnmarshalHeaders = (\<lambda>s. None)\<rparr>
     (Post (Some (zeroRequest\<lparr>URL := ''https://example.com''\<rparr>)))
     = Inr (zeroRequest\<lparr>URL := ''https://example.com''\<rparr>)
   \<and> Width (zeroRequest\<lparr>URL := ''https://example.com''\<rparr>) = 0
   \<and> Quality (zeroRequest\<lparr>URL := ''https://example.com''\<rparr>) = 0
   \<and> DeviceScale (zeroRequest\<lparr>URL := ''https://example.com''\<rparr>) = 0
   \<and> Timeout (zeroRequest\<lparr>URL := ''https://example.com''\<rparr>) = 0
   \<and> Width (applyDefaults (zeroRequest\<lparr>URL := ''https://example.com''\<rparr>)) = 1920
   \<and> Quality (applyDefaults (zeroRequest\<lparr>URL := ''https://example.com''\<rparr>)) = 90
   \<and> DeviceScale (applyDefaults (zeroRequest\<lparr>URL := ''https://example.com''\<rparr>)) = 1
   \<and> Timeout (applyDefaults (zeroRequest\<lparr>URL := ''https://example.com''\<rparr>)) = 30
   \<and> screenshotHandler \<lparr>ParseFloat = (\<lambda>s. None), UnmarshalHeaders = (\<lambda>s. None)\<rparr>
         \<lparr>CHROME_WS_ENDPOINT = None, BROWSERLESS_HTTP_URL = Some []\<rparr>
         \<lparr>json_version = Failed (errors_New ''refused''),
          json_new = Failed (errors_New ''refused''),
          json_list = Failed (errors_New ''refused'')\<rparr>
         \<lparr>dialOutcome = None, runOutcome = (\<lambda>actions. Inr [])\<rparr>
         (Post (Some (zeroRequest\<lparr>URL := ''https://example.com''\<rparr>)))
       \<noteq> JSONError 400 ''quality must be between 1 and 100'' None"
proof -
  let ?lib = "\<lparr>ParseFloat = (\<lambda>s. None), UnmarshalHeaders = (\<lambda>s. None)\<rparr>"
  let ?b = "zeroRequest\<lparr>URL := ''https://example.com''\<rparr>"
  have bound: "boundRequest ?lib (Post (Some ?b)) = Inr ?b"
    by (simp add: boundRequest_def)
  have zeros: "Width ?b = 0" "Quality ?b = 0" "DeviceScale ?b = 0" "Timeout ?b = 0"
    by (simp_all add: zeroRequest_def)
  show ?thesis
    using zero_is_unset [of ?lib "Post (Some ?b)" ?b
        "\<lparr>CHROME_WS_ENDPOINT = None, BROWSERLESS_HTTP_URL = Some []\<rparr>"
        "\<lparr>json_version = Failed (errors_New ''refused''),
          json_new = Failed (errors_New ''refused''),
          json_list = Failed (errors_New ''refused'')\<rparr>"
        "\<lparr>dialOutcome = None, runOutcome = (\<lambda>actions. Inr [])\<rparr>" ?b "[]",
        THEN conjunct1]
      bound zeros
    by blast
qed

lemma validate_height_error:
  "validate x = Inl e \<Longrightarrow> Error e = ''height must be between 100 and 10000''
     \<Longrightarrow> (Height x \<noteq> 0 \<and> (Height x < 100 \<or> Height x > 10000))
         \<or> (Height x = 0 \<and> Selector x = [])"
  by (auto simp: validate_def Let_def errors_New_def timeout_message split: if_splits option.splits)

lemma validate_height_out_of_range:
  assumes "URL x \<noteq> []"
    and "case url_ParseRequestURI (URL x) of
           Inl err \<Rightarrow> False
         | Inr u \<Rightarrow> Scheme u = ''http'' \<or> Scheme u = ''https''"
    and "100 \<le> Width x" "Width x \<le> 4096"
    and "Height x \<noteq> 0" "Height x < 100 \<or> 10000 < Height x"
  shows "validate x = Inl (errors_New ''height must be between 100 and 10000'')"
  using assms by (auto simp: validate_def split: sum.splits)

lemma handler_validation_error:
  assumes "boundRequest lib c = Inr b" "validate (applyDefaults b) = Inl e"
  shows "screenshotHandler lib env cp chrome c = JSONError 400 (Error e) None"
proof -
  obtain p where "parseRequest lib c = Inr p" "applyDefaults p = applyDefaults b"
    using parseRequest_bound [OF assms(1)] by blast
  then show ?thesis using assms(2) by (simp add: screenshotHandler_def)
qed

text \<open>
  Claim C5, as stated, fails: a request with height unset and an empty selector is not
  rejected.  Defaulting runs before validation and gives it the height 1080, so a GET
  or a POST with only a valid URL is answered 200.
\<close>

theorem unset_height_defaulted_counterexample:
  "boundRequest noLibrary (Get [(''url'', ''https://example.com'')])
     = Inr (zeroRequest\<lparr>URL := ''https://example.com'', Format := ''png'', Width := 1920,
                        Quality := 90, Timeout := 30, DeviceScale := 1\<rparr>)
   \<and> Height (zeroRequest\<lparr>URL := ''https://example.com'', Format := ''png'', Width := 1920,
                        Quality := 90, Timeout := 30, DeviceScale := 1\<rparr>) = 0
   \<and> Selector (zeroRequest\<lparr>URL := ''https://example.com'', Format := ''png'', Width := 1920,
                        Quality := 90, Timeout := 30, DeviceScale := 1\<rparr>) = []
   \<and> screenshotHandler noLibrary directEndpoint unreachable readyBrowser
        (Get [(''url'', ''https://example.com'')])
     = Data 200 ''image/png'' []
   \<and> Height (zeroRequest\<lparr>URL := ''https://example.com''\<rparr>) = 0
   \<and> Selector (zeroRequest\<lparr>URL := ''https://example.com''\<rparr>) = []
   \<and> screenshotHandler noLibrary directEndpoint unreachable readyBrowser
        (Post (Some (zeroRequest\<lparr>URL := ''https://example.com''\<rparr>)))
     = Data 200 ''image/png'' []"
  by code_simp

text \<open>
  Claim C5, amended.  For every request read from the wire with height unset (zero)
  and an empty selector, defaulting sets the height to 1080 before validation runs.
  The height is still unset when validation runs exactly when the request has a
  selector.  The handler answers the height range error only for a height that is set
  and lies outside 100..10000, and it does answer it for such a height when the URL and
  the width are valid.  In validation itself a height may pass as unset only when a
  selector is present.
\<close>

theorem unset_height_defaulted:
  "(boundRequest lib c = Inr b \<longrightarrow>
      (Height b = 0 \<and> Selector b = [] \<longrightarrow> Height (applyDefaults b) = 1080)
      \<and> (Height (applyDefaults b) = 0) = (Height b = 0 \<and> Selector b \<noteq> [])
      \<and> (screenshotHandler lib env cp chrome c
            = JSONError 400 ''height must be between 100 and 10000'' None
          \<longrightarrow> Height b \<noteq> 0 \<and> (Height b < 100 \<or> 10000 < Height b))
      \<and> (Height b \<noteq> 0 \<and> (Height b < 100 \<or> 10000 < Height b) \<and> URL b \<noteq> []
            \<and> (case url_ParseRequestURI (URL b) of
                  Inl err \<Rightarrow> False
                | Inr u \<Rightarrow> Scheme u = ''http'' \<or> Scheme u = ''https'')
            \<and> (Width b = 0 \<or> 100 \<le> Width b \<and> Width b \<le> 4096)
          \<longrightarrow> screenshotHandler lib env cp chrome c
                = JSONError 400 ''height must be between 100 and 10000'' None))
   \<and> (validate r = Inr r' \<and> Height r = 0 \<longrightarrow> Selector r \<noteq> [])"
proof (intro conjI impI)
  assume b: "boundRequest lib c = Inr b"
  show "(Height (applyDefaults b) = 0) = (Height b = 0 \<and> Selector b \<noteq> [])"
    by (auto simp: applyDefaults_alt)
  { assume "Height b = 0 \<and> Selector b = []"
    then show "Height (applyDefaults b) = 1080" by (simp add: applyDefaults_alt) }
  { assume h: "screenshotHandler lib env cp chrome c
            = JSONError 400 ''height must be between 100 and 10000'' None"
    from handler_rejects [OF b h] obtain e where
      e: "validate (applyDefaults b) = Inl e" "Error e = ''height must be between 100 and 10000''"
      by blast
    from validate_height_error [OF e]
    have "Height b \<noteq> 0 \<and> (Height b < 100 \<or> 10000 < Height b)"
      by (auto simp: applyDefaults_alt split: if_splits)
    then show "Height b \<noteq> 0" and "Height b < 100 \<or> 10000 < Height b" by blast+ }
  { assume a: "Height b \<noteq> 0 \<and> (Height b < 100 \<or> 10000 < Height b) \<and> URL b \<noteq> []
            \<and> (case url_ParseRequestURI (URL b) of
                  Inl err \<Rightarrow> False
                | Inr u \<Rightarrow> Scheme u = ''http'' \<or> Scheme u = ''https'')
            \<and> (Width b = 0 \<or> 100 \<le> Width b \<and> Width b \<le> 4096)"
    have "validate (applyDefaults b)
            = Inl (errors_New ''height must be between 100 and 10000'')"
      using a by (intro validate_height_out_of_range) (auto simp: applyDefaults_alt)
    from handler_validation_error [OF b this]
    show "screenshotHandler lib env cp chrome c
                = JSONError 400 ''height must be between 100 and 10000'' None"
      by (simp add: errors_New_def) }
next
  assume "validate r = Inr r' \<and> Height r = 0"
  then show "Selector r \<noteq> []"
    by (auto simp: validate_def Let_def split: if_splits)
qed


theorem unset_height_defaulted_witness:
  "boundRequest noLibrary (Get [(''url'', ''https://example.com'')])
     = Inr (zeroRequest\<lparr>URL := ''https://example.com'', Format := ''png'', Width := 1920,
                        Quality := 90, Timeout := 30, DeviceScale := 1\<rparr>)
   \<and> Height (applyDefaults (zeroRequest\<lparr>URL := ''https://example.com'', Format := ''png'',
                 Width := 1920, Quality := 90, Timeout := 30, DeviceScale := 1\<rparr>)) = 1080
   \<and> screenshotHandler noLibrary directEndpoint unreachable readyBrowser
        (Get [(''url'', ''https://example.com'')])
     \<noteq> JSONError 400 ''height must be between 100 and 10000'' None
   \<and> boundRequest noLibrary (Post (Some (zeroRequest\<lparr>URL := ''https://example.com'', Height := 50\<rparr>)))
     = Inr (zeroRequest\<lparr>URL := ''https://example.com'', Height := 50\<rparr>)
   \<and> screenshotHandler noLibrary directEndpoint unreachable readyBrowser
        (Post (Some (zeroRequest\<lparr>URL := ''https://example.com'', Height := 50\<rparr>)))
     = JSONError 400 ''height must be between 100 and 10000'' None
   \<and> validate (applyDefaults (zeroRequest\<lparr>URL := ''https://example.com'', Selector := ''#main''\<rparr>))
     = Inr (applyDefaults (zeroRequest\<lparr>URL := ''https://example.com'', Selector := ''#main''\<rparr>))
   \<and> Height (applyDefaults (zeroRequest\<lparr>URL := ''https://example.com'', Selector := ''#main''\<rparr>)) = 0
   \<and> Selector (applyDefaults (zeroRequest\<lparr>URL := ''https://example.com'', Selector := ''#main''\<rparr>)) \<noteq> []"
proof -
  let ?g = "Get [(''url'', ''https://example.com'')]"
  let ?b = "zeroRequest\<lparr>URL := ''https://example.com'', Format := ''png'', Width := 1920,
                        Quality := 90, Timeout := 30, DeviceScale := 1\<rparr>"
  let ?q = "zeroRequest\<lparr>URL := ''https://example.com'', Height := 50\<rparr>"
  let ?s = "applyDefaults (zeroRequest\<lparr>URL := ''https://example.com'', Selector := ''#main''\<rparr>)"
  have bg: "boundRequest noLibrary ?g = Inr ?b"
    by (simp add: boundRequest_def noLibrary_def parseRequestFromGET_def orReturn_def
        parseIntQuery_def parseFloatQuery_def parseBoolQuery_def Query_def DefaultQuery_def
        defaults zeroRequest_def)
  have zg: "Height ?b = 0 \<and> Selector ?b = []"
    by (simp add: zeroRequest_def)
  have bq: "boundRequest noLibrary (Post (Some ?q)) = Inr ?q"
    by (simp add: boundRequest_def)
  have u: "url_ParseRequestURI ''https://example.com''
             = Inr (emptyURL\<lparr>Scheme := ''https'', Host := ''example.com''\<rparr>)"
    by code_simp
  have hq: "Height ?q \<noteq> 0 \<and> (Height ?q < 100 \<or> 10000 < Height ?q) \<and> URL ?q \<noteq> []
            \<and> (case url_ParseRequestURI (URL ?q) of
                  Inl err \<Rightarrow> False
                | Inr u \<Rightarrow> Scheme u = ''http'' \<or> Scheme u = ''https'')
            \<and> (Width ?q = 0 \<or> 100 \<le> Width ?q \<and> Width ?q \<le> 4096)"
    using u by (simp add: zeroRequest_def emptyURL_def)
  note G = unset_height_defaulted [where lib = noLibrary and c = ?g and b = ?b
      and env = directEndpoint and cp = unreachable and chrome = readyBrowser]
  note Q = unset_height_defaulted [where lib = noLibrary and c = "Post (Some ?q)" and b = ?q
      and env = directEndpoint and cp = unreachable and chrome = readyBrowser]
  have 1: "Height (applyDefaults ?b) = 1080"
    using G bg zg by blast
  have 2: "screenshotHandler noLibrary directEndpoint unreachable readyBrowser ?g
             \<noteq> JSONError 400 ''height must be between 100 and 10000'' None"
    using G bg zg by blast
  have 3: "screenshotHandler noLibrary directEndpoint unreachable readyBrowser (Post (Some ?q))
             = JSONError 400 ''height must be between 100 and 10000'' None"
    using Q bq hq by blast
  have v: "validate ?s = Inr ?s"
    by code_simp
  have hs: "Height ?s = 0"
    by (simp add: applyDefaults_alt zeroRequest_def)
  have 4: "Selector ?s \<noteq> []"
    using unset_height_defaulted [where r = ?s and r' = ?s] v hs by blast
  show ?thesis using bg 1 2 bq 3 v hs 4 by blast
qed

section \<open>Properties of the capture plan\<close>

lemma filter_if: "filter P (if c then xs else ys) = (if c then filter P xs else filter P ys)"
  by simp

lemma metrics_of_buildActions:
  "filter isDeviceMetrics (buildActions req)
     = [SetDeviceMetricsOverride (fst (viewport req)) (fst (snd (viewport req)))
          (DeviceScale req) (Mobile req)]"
  by (simp add: buildActions_def filter_if split: prod.splits split del: if_split cong: if_cong)

lemma autoExpand_of_buildActions:
  "filter isAutoExpand (buildActions req)
     = (if Selector req \<noteq> [] \<and> Height req = 0
        then [AutoExpand (fst (viewport req)) (fst (snd (viewport req)))
                (DeviceScale req) (Mobile req)]
        else [])"
  by (auto simp: buildActions_def filter_if viewport_def Let_def split: prod.splits)

text \<open>
  Claim C6.  For a validated request with mobile and landscape both set, the viewport
  the handler commits to the browser (the one device-metrics action among the actions)
  has the height of the request as its width and the width of the request as its height,
  where an unset height counts as the load default 1080.  With any other combination of
  the two flags the viewport is (width, height), unswapped.
\<close>

theorem landscape_swap:
  "(validate r = Inr req \<and> Mobile r \<and> Landscape r \<longrightarrow>
      viewport req = (if Height r = 0 then 1080 else Height r, Width r,
                      Selector r \<noteq> [] \<and> Height r = 0)
      \<and> filter isDeviceMetrics (buildActions req)
          = [SetDeviceMetricsOverride (if Height r = 0 then 1080 else Height r) (Width r)
               (DeviceScale r) True])
   \<and> (validate r = Inr req \<and> \<not> (Mobile r \<and> Landscape r) \<longrightarrow>
      viewport req = (Width r, if Height r = 0 then 1080 else Height r,
                      Selector r \<noteq> [] \<and> Height r = 0)
      \<and> filter isDeviceMetrics (buildActions req)
          = [SetDeviceMetricsOverride (Width r) (if Height r = 0 then 1080 else Height r)
               (DeviceScale r) (Mobile r)])"
proof (intro conjI impI)
  assume a: "validate r = Inr req \<and> Mobile r \<and> Landscape r"
  then have req: "req = r\<lparr>Format := ToLower (Format r)\<rparr>"
    using validate_Inr by blast
  show v: "viewport req = (if Height r = 0 then 1080 else Height r, Width r,
                      Selector r \<noteq> [] \<and> Height r = 0)"
    using a by (simp add: req viewport_def defaultHeight_def)
  show "filter isDeviceMetrics (buildActions req)
          = [SetDeviceMetricsOverride (if Height r = 0 then 1080 else Height r) (Width r)
               (DeviceScale r) True]"
    unfolding metrics_of_buildActions v using a by (simp add: req)
next
  assume a: "validate r = Inr req \<and> \<not> (Mobile r \<and> Landscape r)"
  then have req: "req = r\<lparr>Format := ToLower (Format r)\<rparr>"
    using validate_Inr by blast
  show v: "viewport req = (Width r, if Height r = 0 then 1080 else Height r,
                      Selector r \<noteq> [] \<and> Height r = 0)"
    using a by (auto simp add: req viewport_def defaultHeight_def)
  show "filter isDeviceMetrics (buildActions req)
          = [SetDeviceMetricsOverride (Width r) (if Height r = 0 then 1080 else Height r)
               (DeviceScale r) (Mobile r)]"
    unfolding metrics_of_buildActions v by (simp add: req)
qed

theorem landscape_swap_witness:
  "validate (applyDefaults (zeroRequest\<lparr>URL := ''https://example.com'', Width := 390,
                              Height := 844, Mobile := True, Landscape := True\<rparr>))
     = Inr (applyDefaults (zeroRequest\<lparr>URL := ''https://example.com'', Width := 390,
                              Height := 844, Mobile := True, Landscape := True\<rparr>))
   \<and> filter isDeviceMetrics
        (buildActions (applyDefaults (zeroRequest\<lparr>URL := ''https://example.com'', Width := 390,
                              Height := 844, Mobile := True, Landscape := True\<rparr>)))
       = [SetDeviceMetricsOverride 844 390 1 True]
   \<and> validate (applyDefaults (zeroRequest\<lparr>URL := ''https://example.com'', Width := 390,
                              Height := 844, Mobile := True\<rparr>))
     = Inr (applyDefaults (zeroRequest\<lparr>URL := ''https://example.com'', Width := 390,
                              Height := 844, Mobile := True\<rparr>))
   \<and> filter isDeviceMetrics
        (buildActions (applyDefaults (zeroRequest\<lparr>URL := ''https://example.com'', Width := 390,
                              Height := 844, Mobile := True\<rparr>)))
       = [SetDeviceMetricsOverride 390 844 1 True]"
proof -
  let ?a = "applyDefaults (zeroRequest\<lparr>URL := ''https://example.com'', Width := 390,
                              Height := 844, Mobile := True, Landscape := True\<rparr>)"
  let ?b = "applyDefaults (zeroRequest\<lparr>URL := ''https://example.com'', Width := 390,
                              Height := 844, Mobile := True\<rparr>)"
  have va: "validate ?a = Inr ?a" by code_simp
  have vb: "validate ?b = Inr ?b" by code_simp
  have fa: "Mobile ?a \<and> Landscape ?a" "Height ?a = 844" "Width ?a = 390" "DeviceScale ?a = 1"
    by (simp_all add: applyDefaults_alt zeroRequest_def)
  have fb: "\<not> (Mobile ?b \<and> Landscape ?b)" "Mobile ?b" "Height ?b = 844" "Width ?b = 390"
    "DeviceScale ?b = 1"
    by (simp_all add: applyDefaults_alt zeroRequest_def)
  have "filter isDeviceMetrics (buildActions ?a) = [SetDeviceMetricsOverride 844 390 1 True]"
    using landscape_swap [of ?a ?a, THEN conjunct1] va fa by simp
  moreover have "filter isDeviceMetrics (buildActions ?b) = [SetDeviceMetricsOverride 390 844 1 True]"
    using landscape_swap [of ?b ?b, THEN conjunct2] vb fb by simp
  ultimately show ?thesis using va vb by blast
qed

lemma int64_of_ceil:
  assumes "0 < m" "m \<le> 2 ^ 63 - 1"
  shows "int64_of_float64 (math_Ceil m) = \<lceil>m\<rceil>"
proof -
  define k where "k = \<lceil>m\<rceil>"
  have pos: "0 < k" using assms(1) by (simp add: k_def less_ceiling_iff)
  have "k \<le> 2 ^ 63 - 1" using assms(2) by (simp add: k_def ceiling_le_iff)
  then have "k < 2 ^ 63" by simp
  then have up: "\<not> (2 ^ 63 \<le> (of_int k :: real))"
    by (simp add: not_le)
  have "(0::real) < of_int k" using pos by simp
  then have lo: "\<not> ((of_int k :: real) < - (2 ^ 63))" "\<not> ((of_int k :: real) < 0)"
    by simp_all
  have "int64_of_float64 (of_int k) = k"
    unfolding int64_of_float64_def using up lo by simp
  then show ?thesis by (simp add: math_Ceil_def k_def)
qed

text \<open>
  Within the int64 range the action follows the formula: for a measured page height
  \<open>m\<close>, positive and at most \<open>2^63 - 1\<close>, the viewport height it leaves is
  \<open>min (max \<lceil>m\<rceil> current) 30000\<close>, and it re-applies the device metrics, with that
  height, exactly when the value differs from the current viewport height.  A measured
  height of 50000 at a current height of 1080 gives 30000.  The action is among the
  actions exactly when the request has a selector and no height.
\<close>

lemma autoExpand_within_int64:
  "(measurePageHeight probe = Inr m \<and> 0 < m \<and> m \<le> 2 ^ 63 - 1 \<longrightarrow>
      finalViewportHeight (autoExpand probe vw vh ds mob) = min (max \<lceil>m\<rceil> vh) 30000
      \<and> metricsSent (autoExpand probe vw vh ds mob)
          = (if min (max \<lceil>m\<rceil> vh) 30000 \<noteq> vh
             then [SetDeviceMetricsOverride vw (min (max \<lceil>m\<rceil> vh) 30000) ds mob]
             else []))
   \<and> finalViewportHeight
        (autoExpand \<lparr>layoutHeight = Some 50000, scriptHeight = sh, metricsReply = mr\<rparr>
           vw 1080 ds mob) = 30000
   \<and> filter isAutoExpand (buildActions req)
        = (if Selector req \<noteq> [] \<and> Height req = 0
           then [AutoExpand (fst (viewport req)) (fst (snd (viewport req)))
                   (DeviceScale req) (Mobile req)]
           else [])"
proof (intro conjI impI)
  assume a: "measurePageHeight probe = Inr m \<and> 0 < m \<and> m \<le> 2 ^ 63 - 1"
  then have c: "int64_of_float64 (math_Ceil m) = \<lceil>m\<rceil>"
    using int64_of_ceil by blast
  show "finalViewportHeight (autoExpand probe vw vh ds mob) = min (max \<lceil>m\<rceil> vh) 30000"
    using a c by (auto simp: autoExpand_def Let_def maxAutoViewportHeight_def)
  show "metricsSent (autoExpand probe vw vh ds mob)
          = (if min (max \<lceil>m\<rceil> vh) 30000 \<noteq> vh
             then [SetDeviceMetricsOverride vw (min (max \<lceil>m\<rceil> vh) 30000) ds mob]
             else [])"
    using a c by (auto simp: autoExpand_def Let_def maxAutoViewportHeight_def)
next
  have "int64_of_float64 (math_Ceil 50000) = 50000"
    using int64_of_ceil [of 50000] by simp
  then show "finalViewportHeight
        (autoExpand \<lparr>layoutHeight = Some 50000, scriptHeight = sh, metricsReply = mr\<rparr>
           vw 1080 ds mob) = 30000"
    by (simp add: autoExpand_def measurePageHeight_def Let_def maxAutoViewportHeight_def)
next
  show "filter isAutoExpand (buildActions req)
        = (if Selector req \<noteq> [] \<and> Height req = 0
           then [AutoExpand (fst (viewport req)) (fst (snd (viewport req)))
                   (DeviceScale req) (Mobile req)]
           else [])"
    by (rule autoExpand_of_buildActions)
qed


lemma int64_overflow:
  "int64_of_float64 (math_Ceil 1000000000000000000000000000000) = - (2 ^ 63)"
proof -
  have "\<lceil>1000000000000000000000000000000 :: real\<rceil> = 1000000000000000000000000000000"
    by simp
  then show ?thesis
    by (simp add: int64_of_float64_def math_Ceil_def)
qed

text \<open>
  Claim C4 at a measured content height of \<open>10^30\<close>, with the viewport at 1920 by 1080:
  the conversion \<open>int64(math.Ceil(pageHeight))\<close> leaves the int64 range before the
  clamp is applied, the desired height falls back to the current one, and the action
  returns with the viewport height still 1080 and no device metrics sent, where the
  formula \<open>min (max \<lceil>m\<rceil> current) 30000\<close> gives 30000.  The action with these
  captured values is the one the handler builds for a selector request without height.
\<close>

theorem autoExpand_overflow:
  "autoExpand \<lparr>layoutHeight = Some 1000000000000000000000000000000,
               scriptHeight = Inr 0, metricsReply = None\<rparr> 1920 1080 1 False
     = \<lparr>expandErr = None, finalViewportHeight = 1080, metricsSent = []\<rparr>
   \<and> min (max \<lceil>1000000000000000000000000000000 :: real\<rceil> 1080) 30000 = (30000 :: int)
   \<and> filter isAutoExpand (buildActions (applyDefaults
          (zeroRequest\<lparr>URL := ''https://example.com'', Selector := ''#main''\<rparr>)))
     = [AutoExpand 1920 1080 1 False]"
proof (intro conjI)
  show "autoExpand \<lparr>layoutHeight = Some 1000000000000000000000000000000,
               scriptHeight = Inr 0, metricsReply = None\<rparr> 1920 1080 1 False
     = \<lparr>expandErr = None, finalViewportHeight = 1080, metricsSent = []\<rparr>"
    using int64_overflow
    by (simp add: autoExpand_def measurePageHeight_def Let_def maxAutoViewportHeight_def)
  show "min (max \<lceil>1000000000000000000000000000000 :: real\<rceil> 1080) 30000 = (30000 :: int)"
    by simp
  show "filter isAutoExpand (buildActions (applyDefaults
          (zeroRequest\<lparr>URL := ''https://example.com'', Selector := ''#main''\<rparr>)))
     = [AutoExpand 1920 1080 1 False]"
    by (simp add: autoExpand_of_buildActions applyDefaults_alt viewport_def zeroRequest_def
        defaultHeight_def)
qed

section \<open>Properties of the failure classification\<close>

text \<open>
  Claim C7, as stated, fails in three ways.  A dial failure that is neither a timeout
  nor mentions a connection word is answered 502, not 500.  A failure of the later
  phases whose text mentions only \<open>dial\<close> is answered 500, not 502.  A dial failure that
  mentions a connection word has its text prefixed with \<open>dial failed: \<close>.
\<close>

theorem failure_classification_counterexample:
  "dialFailure False (errors_New ''boom'')
     = JSONError 502 ''failed to connect chrome endpoint'' (Some ''boom'')
   \<and> \<not> mentions [''websocket'', ''handshake'', ''connect'', ''dial''] (errors_New ''boom'')
   \<and> \<not> isDeadlineExceeded (errors_New ''boom'') \<and> \<not> isCanceled (errors_New ''boom'')
   \<and> runFailure (errors_New ''dial tcp 10.0.0.5:9222: i/o timeout'')
     = JSONError 500 ''failed to screenshot'' (Some ''dial tcp 10.0.0.5:9222: i/o timeout'')
   \<and> mentions [''websocket'', ''handshake'', ''connect'', ''dial'']
        (errors_New ''dial tcp 10.0.0.5:9222: i/o timeout'')
   \<and> dialFailure False (errors_New ''websocket: bad handshake'')
     = JSONError 502 ''failed to connect chrome endpoint''
         (Some ''dial failed: websocket: bad handshake'')"
  by code_simp

lemma runFailure_cases:
  "runFailure err =
     (if isTimeoutErr err then JSONError 504 ''screenshot timeout'' (Some (Error err))
      else if mentions [''websocket'', ''handshake'', ''connect''] err
        then JSONError 502 ''failed to connect chrome endpoint'' (Some (Error err))
      else JSONError 500 ''failed to screenshot'' (Some (Error err)))"
  by (simp add: runFailure_def mentions_def Let_def)

lemma dialFailure_cases:
  "dialFailure expired err =
     (if expired \<or> isDeadlineExceeded err
        then JSONError 504 ''chrome dial timeout'' (Some (Error err))
      else if mentions [''websocket'', ''handshake'', ''connect'', ''dial''] err
        then JSONError 502 ''failed to connect chrome endpoint''
               (Some (''dial failed: '' @ Error err))
      else if isTimeoutErr err
        then JSONError 504 ''chrome dial timeout'' (Some (Error err))
      else JSONError 502 ''failed to connect chrome endpoint'' (Some (Error err)))"
  by (simp add: dialFailure_def mentions_def Let_def)

text \<open>
  Claim C7, amended.  A failure of the actions run after the dial is answered 504 when
  it is a timeout (deadline exceeded, cancellation, or a text that contains
  \<open>deadline exceeded\<close>), else 502 when its lower-cased text contains \<open>websocket\<close>,
  \<open>handshake\<close> or \<open>connect\<close>, else 500, and its text is passed on unmodified.  A
  failure of the dial is answered 504 when the dial context has expired or the error is
  a deadline error; else 502 when its lower-cased text contains \<open>websocket\<close>,
  \<open>handshake\<close>, \<open>connect\<close> or \<open>dial\<close>, its text then prefixed with \<open>dial failed: \<close>;
  else 504 when it is a timeout; else 502: never 500.  These are the answers of the
  handler once the request is valid and the endpoint resolved.
\<close>

theorem failure_classification:
  "statusOf (runFailure err)
     = (if isTimeoutErr err then 504
        else if mentions [''websocket'', ''handshake'', ''connect''] err then 502
        else 500)
   \<and> (\<exists>msg. runFailure err = JSONError (statusOf (runFailure err)) msg (Some (Error err)))
   \<and> statusOf (dialFailure expired err)
     = (if expired \<or> isDeadlineExceeded err then 504
        else if mentions [''websocket'', ''handshake'', ''connect'', ''dial''] err then 502
        else if isTimeoutErr err then 504
        else 502)
   \<and> (\<exists>msg. dialFailure expired err
          = JSONError (statusOf (dialFailure expired err)) msg
              (Some (if \<not> (expired \<or> isDeadlineExceeded err)
                        \<and> mentions [''websocket'', ''handshake'', ''connect'', ''dial''] err
                     then ''dial failed: '' @ Error err else Error err)))
   \<and> isTimeoutErr err
     = (isDeadlineExceeded err \<or> isCanceled err \<or> mentions [''deadline exceeded''] err)
   \<and> (parseRequest lib c = Inr p \<and> validate (applyDefaults p) = Inr req
        \<and> fst (resolveWSEndpoint env cp) = (ws, True, None)
      \<longrightarrow> (\<forall>x e. dialOutcome chrome = Some (x, e)
               \<longrightarrow> screenshotHandler lib env cp chrome c = dialFailure x e)
          \<and> (\<forall>e. dialOutcome chrome = None \<and> runOutcome chrome (buildActions req) = Inl e
               \<longrightarrow> screenshotHandler lib env cp chrome c = runFailure e))"
proof (intro conjI impI allI)
  show "statusOf (runFailure err)
     = (if isTimeoutErr err then 504
        else if mentions [''websocket'', ''handshake'', ''connect''] err then 502
        else 500)"
    by (simp add: runFailure_cases)
  show "\<exists>msg. runFailure err = JSONError (statusOf (runFailure err)) msg (Some (Error err))"
    by (simp add: runFailure_cases)
  show "statusOf (dialFailure expired err)
     = (if expired \<or> isDeadlineExceeded err then 504
        else if mentions [''websocket'', ''handshake'', ''connect'', ''dial''] err then 502
        else if isTimeoutErr err then 504
        else 502)"
    by (simp add: dialFailure_cases)
  show "\<exists>msg. dialFailure expired err
          = JSONError (statusOf (dialFailure expired err)) msg
              (Some (if \<not> (expired \<or> isDeadlineExceeded err)
                        \<and> mentions [''websocket'', ''handshake'', ''connect'', ''dial''] err
                     then ''dial failed: '' @ Error err else Error err))"
    by (simp add: dialFailure_cases)
  show "isTimeoutErr err
     = (isDeadlineExceeded err \<or> isCanceled err \<or> mentions [''deadline exceeded''] err)"
    by (simp add: isTimeoutErr_def mentions_def)
next
  fix x e
  assume "parseRequest lib c = Inr p \<and> validate (applyDefaults p) = Inr req
        \<and> fst (resolveWSEndpoint env cp) = (ws, True, None)"
    and "dialOutcome chrome = Some (x, e)"
  then show "screenshotHandler lib env cp chrome c = dialFailure x e"
    by (simp add: screenshotHandler_def)
next
  fix e
  assume "parseRequest lib c = Inr p \<and> validate (applyDefaults p) = Inr req
        \<and> fst (resolveWSEndpoint env cp) = (ws, True, None)"
    and "dialOutcome chrome = None \<and> runOutcome chrome (buildActions req) = Inl e"
  then show "screenshotHandler lib env cp chrome c = runFailure e"
    by (simp add: screenshotHandler_def)
qed

theorem failure_classification_witness:
  "parseRequest noLibrary (Get [(''url'', ''https://example.com'')])
     = Inr (zeroRequest\<lparr>URL := ''https://example.com'', Format := ''png'', Width := 1920,
                        Quality := 90, Timeout := 30, DeviceScale := 1\<rparr>)
   \<and> fst (resolveWSEndpoint
            \<lparr>CHROME_WS_ENDPOINT = Some ''ws://127.0.0.1:9222/devtools/browser/abc'',
             BROWSERLESS_HTTP_URL = None\<rparr> unreachable)
     = (''ws://127.0.0.1:9222/devtools/browser/abc'', True, None)
   \<and> screenshotHandler noLibrary
        \<lparr>CHROME_WS_ENDPOINT = Some ''ws://127.0.0.1:9222/devtools/browser/abc'',
         BROWSERLESS_HTTP_URL = None\<rparr> unreachable
        \<lparr>dialOutcome = Some (False, errors_New ''boom''), runOutcome = (\<lambda>actions. Inr [])\<rparr>
        (Get [(''url'', ''https://example.com'')])
     = JSONError 502 ''failed to connect chrome endpoint'' (Some ''boom'')
   \<and> screenshotHandler noLibrary
        \<lparr>CHROME_WS_ENDPOINT = Some ''ws://127.0.0.1:9222/devtools/browser/abc'',
         BROWSERLESS_HTTP_URL = None\<rparr> unreachable
        \<lparr>dialOutcome = None,
         runOutcome = (\<lambda>actions. Inl (errors_New ''net::ERR_NAME_NOT_RESOLVED''))\<rparr>
        (Get [(''url'', ''https://example.com'')])
     = JSONError 500 ''failed to screenshot'' (Some ''net::ERR_NAME_NOT_RESOLVED'')"
proof -
  let ?c = "Get [(''url'', ''https://example.com'')]"
  let ?p = "zeroRequest\<lparr>URL := ''https://example.com'', Format := ''png'', Width := 1920,
                        Quality := 90, Timeout := 30, DeviceScale := 1\<rparr>"
  let ?req = "applyDefaults ?p"
  let ?env = "\<lparr>CHROME_WS_ENDPOINT = Some ''ws://127.0.0.1:9222/devtools/browser/abc'',
              BROWSERLESS_HTTP_URL = None\<rparr>"
  let ?ws = "''ws://127.0.0.1:9222/devtools/browser/abc''"
  let ?d = "\<lparr>dialOutcome = Some (False, errors_New ''boom''), runOutcome = (\<lambda>actions. Inr [])\<rparr>"
  let ?r = "\<lparr>dialOutcome = None,
            runOutcome = (\<lambda>actions. Inl (errors_New ''net::ERR_NAME_NOT_RESOLVED''))\<rparr>"
  have p: "parseRequest noLibrary ?c = Inr ?p"
    by (simp add: parseRequest_def parseRequestFromGET_def orReturn_def parseIntQuery_def
        parseFloatQuery_def parseBoolQuery_def Query_def DefaultQuery_def defaults
        zeroRequest_def)
  have v: "validate (applyDefaults ?p) = Inr ?req"
    by code_simp
  have r: "fst (resolveWSEndpoint ?env unreachable) = (?ws, True, None)"
    by code_simp
  have hyp: "parseRequest noLibrary ?c = Inr ?p \<and> validate (applyDefaults ?p) = Inr ?req
             \<and> fst (resolveWSEndpoint ?env unreachable) = (?ws, True, None)"
    using p v r by blast
  have d: "dialFailure False (errors_New ''boom'')
             = JSONError 502 ''failed to connect chrome endpoint'' (Some ''boom'')"
    by code_simp
  have e: "runFailure (errors_New ''net::ERR_NAME_NOT_RESOLVED'')
             = JSONError 500 ''failed to screenshot'' (Some ''net::ERR_NAME_NOT_RESOLVED'')"
    by code_simp
  have "\<forall>x e. dialOutcome ?d = Some (x, e)
           \<longrightarrow> screenshotHandler noLibrary ?env unreachable ?d ?c = dialFailure x e"
    using failure_classification [where lib = noLibrary and c = ?c and p = ?p and req = ?req
        and env = ?env and cp = unreachable and ws = ?ws and chrome = ?d] hyp
    by blast
  then have 1: "screenshotHandler noLibrary ?env unreachable ?d ?c
                  = dialFailure False (errors_New ''boom'')"
    by auto
  have "\<forall>e. dialOutcome ?r = None \<and> runOutcome ?r (buildActions ?req) = Inl e
           \<longrightarrow> screenshotHandler noLibrary ?env unreachable ?r ?c = runFailure e"
    using failure_classification [where lib = noLibrary and c = ?c and p = ?p and req = ?req
        and env = ?env and cp = unreachable and ws = ?ws and chrome = ?r] hyp
    by blast
  then have 2: "screenshotHandler noLibrary ?env unreachable ?r ?c
                   = runFailure (errors_New ''net::ERR_NAME_NOT_RESOLVED'')"
    by auto
  show ?thesis using p r 1 2 d e by simp
qed

section \<open>Properties of the GET parameters\<close>

lemma captureFormat_png: "captureFormat ''png'' = ''png''"
  by code_simp

text \<open>
  Claim C8 at \<open>GET /screenshot?url=https://example.com&clip=v\<close>, for any value \<open>v\<close>:
  the parsed request has no clip and the capture is sent without one, whereas a POST
  whose body holds a clip keeps it and captures with it.
\<close>

theorem get_drops_clip:
  "map_sum id (\<lambda>r. (Clip r, last (buildActions (applyDefaults r))))
     (parseRequestFromGET lib [(''url'', ''https://example.com''), (''clip'', v)])
   = Inr (None, Capture ''png'' False None None)
   \<and> map_sum id (\<lambda>r. (Clip r, last (buildActions (applyDefaults r))))
       (boundRequest lib (Post (Some (zeroRequest\<lparr>URL := ''https://example.com'',
          Clip := Some \<lparr>X = 10, Y = 20, Width = 300, Height = 200\<rparr>\<rparr>))))
     = Inr (Some \<lparr>X = 10, Y = 20, Width = 300, Height = 200\<rparr>,
            Capture ''png'' False None (Some \<lparr>X = 10, Y = 20, Width = 300, Height = 200\<rparr>))"
proof
  have p: "parseRequestFromGET lib [(''url'', ''https://example.com''), (''clip'', v)]
             = Inr (zeroRequest\<lparr>URL := ''https://example.com'', Format := ''png'',
                                Width := 1920, Quality := 90, Timeout := 30, DeviceScale := 1\<rparr>)"
    by (simp add: parseRequestFromGET_def orReturn_def parseIntQuery_def parseFloatQuery_def
        parseBoolQuery_def Query_def DefaultQuery_def defaults zeroRequest_def)
  show "map_sum id (\<lambda>r. (Clip r, last (buildActions (applyDefaults r))))
     (parseRequestFromGET lib [(''url'', ''https://example.com''), (''clip'', v)])
   = Inr (None, Capture ''png'' False None None)"
    unfolding p
    by (simp add: applyDefaults_alt buildActions_def viewport_def zeroRequest_def
        captureFormat_png)
  show "map_sum id (\<lambda>r. (Clip r, last (buildActions (applyDefaults r))))
       (boundRequest lib (Post (Some (zeroRequest\<lparr>URL := ''https://example.com'',
          Clip := Some \<lparr>X = 10, Y = 20, Width = 300, Height = 200\<rparr>\<rparr>))))
     = Inr (Some \<lparr>X = 10, Y = 20, Width = 300, Height = 200\<rparr>,
            Capture ''png'' False None (Some \<lparr>X = 10, Y = 20, Width = 300, Height = 200\<rparr>))"
    by (simp add: boundRequest_def applyDefaults_alt buildActions_def viewport_def
        zeroRequest_def captureFormat_png)
qed

section \<open>Properties of the unconfigured state\<close>

lemma viaJSONVersion_configured: "fst (snd (fst (viaJSONVersion cp base)))"
  by (simp add: viaJSONVersion_def split: prod.splits sum.splits)

lemma configured_iff: "fst (snd (fst (resolveWSEndpoint env cp))) = (\<not> notConfigured env)"
  by (auto simp: resolveWSEndpoint_def notConfigured_def getChromeWSEndpoint_def
      getBrowserlessHTTPURL_def defaultBrowserlessHTTPURL_def Let_def viaJSONVersion_configured
      split: sum.splits option.splits)

lemma resolve_notConfigured:
  "notConfigured env \<Longrightarrow>
     fst (resolveWSEndpoint env cp)
       = ([], False, Some (errors_New ''browserless endpoint is not configured''))"
  by (auto simp: resolveWSEndpoint_def notConfigured_def getChromeWSEndpoint_def
      getBrowserlessHTTPURL_def Let_def split: option.splits)

lemma statusOf_dialFailure_503: "statusOf (dialFailure x err) \<noteq> 503"
  by (simp add: dialFailure_def Let_def)

lemma statusOf_runFailure_503: "statusOf (runFailure err) \<noteq> 503"
  by (simp add: runFailure_def Let_def)

lemma handler_503:
  assumes "\<not> notConfigured env"
  shows "statusOf (screenshotHandler lib env cp chrome c) \<noteq> 503"
proof -
  obtain ws cfg e where r: "fst (resolveWSEndpoint env cp) = (ws, cfg, e)"
    using prod_cases3 by blast
  then have "cfg" using configured_iff [of env cp] assms by simp
  then show ?thesis
    using r statusOf_dialFailure_503 statusOf_runFailure_503
    by (auto simp: screenshotHandler_def split: sum.splits option.splits)
qed

text \<open>
  Claim C2, as stated, fails.  With both variables unset the resolver falls back to the
  default base \<open>http://localhost:3000\<close>: a valid \<open>/screenshot\<close> call is answered 502
  when nothing listens there, and \<open>/health\<close> is answered 200 with status \<open>ok\<close> when a
  browser does.  And without configuration an invalid request is answered 400, since
  validation comes before resolution.
\<close>

theorem not_configured_counterexample:
  "screenshotHandler noLibrary \<lparr>CHROME_WS_ENDPOINT = None, BROWSERLESS_HTTP_URL = None\<rparr>
     unreachable readyBrowser
     (Get [(''url'', ''https://example.com'')])
   = JSONError 502 ''failed to resolve browserless websocket endpoint''
       (Some ''connection refused'')
   \<and> healthHandler \<lparr>CHROME_WS_ENDPOINT = None, BROWSERLESS_HTTP_URL = None\<rparr>
        \<lparr>json_version = Response 200 []
           (Inr \<lparr>vrWebSocketDebuggerURL = ''ws://0.0.0.0:3000/devtools/browser/abc''\<rparr>),
         json_new = Failed (errors_New ''connection refused''),
         json_list = Failed (errors_New ''connection refused'')\<rparr>
     = (200, \<lparr>status = ''ok'', chrome_ws_configured = True, chrome_ws_available = True,
              browserless_http_url = ''http://localhost:3000'',
              chrome_ws_endpoint = ''ws://localhost:3000/devtools/browser/abc'',
              details = None\<rparr>)
   \<and> screenshotHandler noLibrary \<lparr>CHROME_WS_ENDPOINT = None, BROWSERLESS_HTTP_URL = Some []\<rparr>
       unreachable readyBrowser (Get [])
     = JSONError 400 ''url is required'' None"
  by code_simp

text \<open>
  Claim C2, amended.  The resolver reports "not configured" exactly when
  \<open>CHROME_WS_ENDPOINT\<close> is unset or blank and \<open>BROWSERLESS_HTTP_URL\<close> is set to a blank
  value; an unset \<open>BROWSERLESS_HTTP_URL\<close> stands for the default base and counts as
  configured.  In the unconfigured state every \<open>/screenshot\<close> call whose request parses
  and validates is answered 503 with the not-configured error, and \<open>/health\<close> is
  answered 503 with status \<open>degraded\<close>.  In a configured state \<open>/screenshot\<close> is never
  answered 503: a resolution failure is answered 504 or 502.  A request that does not
  parse or validate is answered 400 in either state.
\<close>

theorem not_configured_unavailable:
  "fst (snd (fst (resolveWSEndpoint env cp))) = (\<not> notConfigured env)
   \<and> (notConfigured env \<longrightarrow>
        (\<forall>p req. parseRequest lib c = Inr p \<and> validate (applyDefaults p) = Inr req
            \<longrightarrow> screenshotHandler lib env cp chrome c
                 = JSONError 503 notConfiguredMessage None)
        \<and> fst (healthHandler env cp) = 503
        \<and> status (snd (healthHandler env cp)) = ''degraded''
        \<and> \<not> chrome_ws_configured (snd (healthHandler env cp)))
   \<and> (\<not> notConfigured env \<longrightarrow>
        statusOf (screenshotHandler lib env cp chrome c) \<noteq> 503
        \<and> chrome_ws_configured (snd (healthHandler env cp))
        \<and> (\<forall>p req ws e. parseRequest lib c = Inr p \<and> validate (applyDefaults p) = Inr req
              \<and> fst (resolveWSEndpoint env cp) = (ws, True, Some e)
            \<longrightarrow> statusOf (screenshotHandler lib env cp chrome c)
                 = (if isTimeoutErr e then 504 else 502)))
   \<and> (BROWSERLESS_HTTP_URL env = None \<longrightarrow> \<not> notConfigured env)
   \<and> ((\<exists>e. parseRequest lib c = Inl e) \<or> (\<exists>p e. parseRequest lib c = Inr p
          \<and> validate (applyDefaults p) = Inl e)
       \<longrightarrow> statusOf (screenshotHandler lib env cp chrome c) = 400)"
proof (intro conjI impI allI)
  show "fst (snd (fst (resolveWSEndpoint env cp))) = (\<not> notConfigured env)"
    by (rule configured_iff)
next
  fix p req
  assume "notConfigured env"
    and "parseRequest lib c = Inr p \<and> validate (applyDefaults p) = Inr req"
  then show "screenshotHandler lib env cp chrome c = JSONError 503 notConfiguredMessage None"
    by (simp add: screenshotHandler_def resolve_notConfigured)
next
  assume n: "notConfigured env"
  show "fst (healthHandler env cp) = 503"
    by (simp add: healthHandler_def resolve_notConfigured [OF n])
  show "status (snd (healthHandler env cp)) = ''degraded''"
    by (simp add: healthHandler_def resolve_notConfigured [OF n])
  show "\<not> chrome_ws_configured (snd (healthHandler env cp))"
    by (simp add: healthHandler_def resolve_notConfigured [OF n])
next
  assume n: "\<not> notConfigured env"
  show "statusOf (screenshotHandler lib env cp chrome c) \<noteq> 503"
    by (rule handler_503 [OF n])
  show "chrome_ws_configured (snd (healthHandler env cp))"
  proof -
    obtain ws cfg e where r: "fst (resolveWSEndpoint env cp) = (ws, cfg, e)"
      using prod_cases3 by blast
    then have "cfg" using configured_iff [of env cp] n by simp
    then show ?thesis using r by (simp add: healthHandler_def Let_def)
  qed
next
  fix p req ws e
  assume "parseRequest lib c = Inr p \<and> validate (applyDefaults p) = Inr req
              \<and> fst (resolveWSEndpoint env cp) = (ws, True, Some e)"
  then show "statusOf (screenshotHandler lib env cp chrome c)
                 = (if isTimeoutErr e then 504 else 502)"
    by (simp add: screenshotHandler_def)
next
  assume "BROWSERLESS_HTTP_URL env = None"
  then show "\<not> notConfigured env" by (simp add: notConfigured_def)
next
  assume "(\<exists>e. parseRequest lib c = Inl e) \<or> (\<exists>p e. parseRequest lib c = Inr p
          \<and> validate (applyDefaults p) = Inl e)"
  then show "statusOf (screenshotHandler lib env cp chrome c) = 400"
    by (auto simp: screenshotHandler_def)
qed

theorem not_configured_unavailable_witness:
  "notConfigured \<lparr>CHROME_WS_ENDPOINT = Some '' '', BROWSERLESS_HTTP_URL = Some []\<rparr>
   \<and> screenshotHandler noLibrary \<lparr>CHROME_WS_ENDPOINT = Some '' '', BROWSERLESS_HTTP_URL = Some []\<rparr>
        unreachable \<lparr>dialOutcome = None, runOutcome = (\<lambda>actions. Inr [])\<rparr>
        (Post (Some (zeroRequest\<lparr>URL := ''https://example.com''\<rparr>)))
     = JSONError 503 notConfiguredMessage None
   \<and> fst (healthHandler \<lparr>CHROME_WS_ENDPOINT = Some '' '', BROWSERLESS_HTTP_URL = Some []\<rparr>
             unreachable) = 503
   \<and> status (snd (healthHandler \<lparr>CHROME_WS_ENDPOINT = Some '' '', BROWSERLESS_HTTP_URL = Some []\<rparr>
                     unreachable)) = ''degraded''
   \<and> \<not> notConfigured \<lparr>CHROME_WS_ENDPOINT = None, BROWSERLESS_HTTP_URL = None\<rparr>
   \<and> statusOf (screenshotHandler noLibrary
                 \<lparr>CHROME_WS_ENDPOINT = None, BROWSERLESS_HTTP_URL = None\<rparr>
                 unreachable \<lparr>dialOutcome = None, runOutcome = (\<lambda>actions. Inr [])\<rparr>
                 (Post (Some (zeroRequest\<lparr>URL := ''https://example.com''\<rparr>)))) = 502
   \<and> statusOf (screenshotHandler noLibrary
                 \<lparr>CHROME_WS_ENDPOINT = Some '' '', BROWSERLESS_HTTP_URL = Some []\<rparr>
                 unreachable \<lparr>dialOutcome = None, runOutcome = (\<lambda>actions. Inr [])\<rparr>
                 (Post None)) = 400"
proof -
  let ?nc = "\<lparr>CHROME_WS_ENDPOINT = Some '' '', BROWSERLESS_HTTP_URL = Some []\<rparr>"
  let ?df = "\<lparr>CHROME_WS_ENDPOINT = None, BROWSERLESS_HTTP_URL = None\<rparr>"
  let ?ch = "\<lparr>dialOutcome = None, runOutcome = (\<lambda>actions. Inr [])\<rparr>"
  let ?b = "zeroRequest\<lparr>URL := ''https://example.com''\<rparr>"
  let ?c = "Post (Some ?b)"
  have n: "notConfigured ?nc" by code_simp
  have d: "\<not> notConfigured ?df" by code_simp
  have p: "parseRequest noLibrary ?c = Inr (applyDefaults ?b)"
    by (simp add: parseRequest_def)
  have v: "validate (applyDefaults (applyDefaults ?b)) = Inr (applyDefaults ?b)"
    by code_simp
  have r: "fst (resolveWSEndpoint ?df unreachable)
             = ([], True, Some (errors_New ''connection refused''))"
    by code_simp
  have t: "\<not> isTimeoutErr (errors_New ''connection refused'')"
    by code_simp
  have bad: "\<exists>e. parseRequest noLibrary (Post None) = Inl e"
    by (simp add: parseRequest_def)
  note A = not_configured_unavailable [where env = ?nc and cp = unreachable and lib = noLibrary
      and c = ?c and chrome = ?ch]
  note B = not_configured_unavailable [where env = ?df and cp = unreachable and lib = noLibrary
      and c = ?c and chrome = ?ch]
  note C = not_configured_unavailable [where env = ?nc and cp = unreachable and lib = noLibrary
      and c = "Post None" and chrome = ?ch]
  have 1: "screenshotHandler noLibrary ?nc unreachable ?ch ?c
             = JSONError 503 notConfiguredMessage None"
    using A n p v by blast
  have 2: "fst (healthHandler ?nc unreachable) = 503"
    "status (snd (healthHandler ?nc unreachable)) = ''degraded''"
    using A n by blast+
  have 3: "statusOf (screenshotHandler noLibrary ?df unreachable ?ch ?c) = 502"
    using B d p v r t by auto
  have 4: "statusOf (screenshotHandler noLibrary ?nc unreachable ?ch (Post None)) = 400"
    using C bad by blast
  show ?thesis using n d 1 2 3 4 by blast
qed

section \<open>Properties of the discovery fallback\<close>

lemma scanPayloads_find:
  "scanPayloads base ps
     = (case find (usableTarget base) ps of
          None \<Rightarrow> None
        | Some p \<Rightarrow> Some (projr (rewriteWebSocketDebuggerURL (WebSocketDebuggerURL p) base)))"
proof (induction ps)
  case Nil
  show ?case by simp
next
  case (Cons p ps)
  show ?case
  proof (cases "usableTarget base p")
    case True
    then show ?thesis
      by (auto simp: usableTarget_def split: sum.splits)
  next
    case False
    then show ?thesis
      using Cons.IH by (auto simp: usableTarget_def split: sum.splits)
  qed
qed

lemma find_usable:
  "find (usableTarget base) ps = Some p \<Longrightarrow>
     rewriteWebSocketDebuggerURL (WebSocketDebuggerURL p) base
       = Inr (projr (rewriteWebSocketDebuggerURL (WebSocketDebuggerURL p) base))"
  by (auto simp: find_Some_iff usableTarget_def)

text \<open>
  Claim C3, as stated, fails in its rule for \<open>/json/list\<close>: the resolver does not take
  the first entry whose URL carries the \<open>/devtools/\<close> prefix when that entry cannot be
  rewritten.  Here the first entry, \<open>/devtools/page/1\<close>, carries the prefix but has no
  scheme or host; it is skipped and the second entry is taken.
\<close>

theorem discovery_fallback_counterexample:
  "carriesDevToolsPath (targetWithURL ''/devtools/page/1'')
   \<and> find carriesDevToolsPath
        [targetWithURL ''/devtools/page/1'', targetWithURL ''ws://0.0.0.0:3000/devtools/page/2'']
      = Some (targetWithURL ''/devtools/page/1'')
   \<and> resolveWSEndpointViaJSONVersion
        \<lparr>json_version = Response 200 [] (Inr \<lparr>vrWebSocketDebuggerURL = ''ws://0.0.0.0:3000''\<rparr>),
         json_new = Failed (errors_New ''connection refused''),
         json_list = Response 200 []
           (Inr [targetWithURL ''/devtools/page/1'',
                 targetWithURL ''ws://0.0.0.0:3000/devtools/page/2''])\<rparr>
        (emptyURL\<lparr>Scheme := ''http'', Host := ''localhost:3000''\<rparr>)
      = (Inr ''ws://localhost:3000/devtools/page/2'',
         [(GET, ''http://localhost:3000/json/version''),
          (PUT, ''http://localhost:3000/json/new''),
          (GET, ''http://localhost:3000/json/list'')])
   \<and> rewriteWebSocketDebuggerURL ''ws://0.0.0.0:3000/devtools/page/2''
        (emptyURL\<lparr>Scheme := ''http'', Host := ''localhost:3000''\<rparr>)
      = Inr ''ws://localhost:3000/devtools/page/2''
   \<and> isl (rewriteWebSocketDebuggerURL ''/devtools/page/1''
             (emptyURL\<lparr>Scheme := ''http'', Host := ''localhost:3000''\<rparr>))"
  by code_simp

text \<open>
  Claim C3, amended.  When \<open>GET {base}/json/version\<close> returns a
  \<open>webSocketDebuggerUrl\<close> without the \<open>/devtools/\<close> prefix, the resolver calls
  \<open>PUT {base}/json/new\<close>, and \<open>GET {base}/json/list\<close> after it exactly when
  \<open>/json/new\<close> fails, in this order; it returns the result of the first fallback that
  succeeds and fails exactly when both fail.  \<open>/json/new\<close> succeeds with the rewrite of
  its target's URL when that carries the prefix.  \<open>/json/list\<close> takes the first entry
  whose URL carries the prefix and can be rewritten (has a scheme and a host), skipping
  the others, and returns its rewrite by the same rule.
\<close>

theorem discovery_fallback:
  "(readReply ''/json/version'' (json_version cp) = Inr vr
      \<and> \<not> hasDevToolsPath (TrimSpace (vrWebSocketDebuggerURL vr))
    \<longrightarrow> snd (resolveWSEndpointViaJSONVersion cp base)
          = [(GET, endpointURL base ''/json/version''), (PUT, endpointURL base ''/json/new'')]
            @ (if isl (fst (resolveWSEndpointViaJSONNew cp base))
               then [(GET, endpointURL base ''/json/list'')] else [])
        \<and> (\<not> isl (fst (resolveWSEndpointViaJSONNew cp base))
            \<longrightarrow> fst (resolveWSEndpointViaJSONVersion cp base)
                 = fst (resolveWSEndpointViaJSONNew cp base))
        \<and> (isl (fst (resolveWSEndpointViaJSONNew cp base))
              \<and> \<not> isl (fst (resolveWSEndpointViaJSONList cp base))
            \<longrightarrow> fst (resolveWSEndpointViaJSONVersion cp base)
                 = fst (resolveWSEndpointViaJSONList cp base))
        \<and> isl (fst (resolveWSEndpointViaJSONVersion cp base))
            = (isl (fst (resolveWSEndpointViaJSONNew cp base))
               \<and> isl (fst (resolveWSEndpointViaJSONList cp base))))
   \<and> (readReply ''/json/new'' (json_new cp) = Inr target
      \<longrightarrow> (hasDevToolsPath (WebSocketDebuggerURL target)
            \<longrightarrow> fst (resolveWSEndpointViaJSONNew cp base)
                 = rewriteWebSocketDebuggerURL (WebSocketDebuggerURL target) base)
          \<and> (\<not> hasDevToolsPath (WebSocketDebuggerURL target)
            \<longrightarrow> isl (fst (resolveWSEndpointViaJSONNew cp base))))
   \<and> (readReply ''/json/list'' (json_list cp) = Inr targets
      \<longrightarrow> (case find (usableTarget base) targets of
             Some p \<Rightarrow> fst (resolveWSEndpointViaJSONList cp base)
                        = rewriteWebSocketDebuggerURL (WebSocketDebuggerURL p) base
           | None \<Rightarrow> isl (fst (resolveWSEndpointViaJSONList cp base))))
   \<and> (isl (readReply ''/json/new'' (json_new cp))
        \<longrightarrow> isl (fst (resolveWSEndpointViaJSONNew cp base)))
   \<and> (isl (readReply ''/json/list'' (json_list cp))
        \<longrightarrow> isl (fst (resolveWSEndpointViaJSONList cp base)))"
proof (intro conjI impI)
  assume a: "readReply ''/json/version'' (json_version cp) = Inr vr
      \<and> \<not> hasDevToolsPath (TrimSpace (vrWebSocketDebuggerURL vr))"
  obtain n nc where n: "resolveWSEndpointViaJSONNew cp base = (n, nc)" by fastforce
  then have nc: "nc = [(PUT, endpointURL base ''/json/new'')]"
    by (auto simp: resolveWSEndpointViaJSONNew_def)
  obtain l lc where l: "resolveWSEndpointViaJSONList cp base = (l, lc)" by fastforce
  then have lc: "lc = [(GET, endpointURL base ''/json/list'')]"
    by (auto simp: resolveWSEndpointViaJSONList_def)
  have v: "resolveWSEndpointViaJSONVersion cp base
             = (case n of
                  Inr resolved \<Rightarrow> (Inr resolved, (GET, endpointURL base ''/json/version'') # nc)
                | Inl newErr \<Rightarrow>
                    (case l of
                       Inr resolved \<Rightarrow>
                         (Inr resolved, (GET, endpointURL base ''/json/version'') # nc @ lc)
                     | Inl listErr \<Rightarrow>
                         (Inl (errors_New
                            (''browserless /json/version returned non-devtools ws (''
                             @ go_quote (TrimSpace (vrWebSocketDebuggerURL vr))
                             @ '') and fallbacks (/json/new,/json/list) failed'')),
                          (GET, endpointURL base ''/json/version'') # nc @ lc)))"
    using a n l by (simp add: resolveWSEndpointViaJSONVersion_def Let_def split: sum.splits)
  show "snd (resolveWSEndpointViaJSONVersion cp base)
          = [(GET, endpointURL base ''/json/version''), (PUT, endpointURL base ''/json/new'')]
            @ (if isl (fst (resolveWSEndpointViaJSONNew cp base))
               then [(GET, endpointURL base ''/json/list'')] else [])"
    unfolding v n by (cases n; cases l) (simp_all add: nc lc)
  show "isl (fst (resolveWSEndpointViaJSONVersion cp base))
            = (isl (fst (resolveWSEndpointViaJSONNew cp base))
               \<and> isl (fst (resolveWSEndpointViaJSONList cp base)))"
    unfolding v n l by (cases n; cases l) simp_all
  { assume "\<not> isl (fst (resolveWSEndpointViaJSONNew cp base))"
    then show "fst (resolveWSEndpointViaJSONVersion cp base)
                 = fst (resolveWSEndpointViaJSONNew cp base)"
      unfolding v n by (cases n) simp_all }
  { assume "isl (fst (resolveWSEndpointViaJSONNew cp base))
              \<and> \<not> isl (fst (resolveWSEndpointViaJSONList cp base))"
    then show "fst (resolveWSEndpointViaJSONVersion cp base)
                 = fst (resolveWSEndpointViaJSONList cp base)"
      unfolding v n l by (cases n; cases l) simp_all }
next
  assume "readReply ''/json/new'' (json_new cp) = Inr target"
    and "hasDevToolsPath (WebSocketDebuggerURL target)"
  then show "fst (resolveWSEndpointViaJSONNew cp base)
                 = rewriteWebSocketDebuggerURL (WebSocketDebuggerURL target) base"
    by (simp add: resolveWSEndpointViaJSONNew_def)
next
  assume "readReply ''/json/new'' (json_new cp) = Inr target"
    and "\<not> hasDevToolsPath (WebSocketDebuggerURL target)"
  then show "isl (fst (resolveWSEndpointViaJSONNew cp base))"
    by (simp add: resolveWSEndpointViaJSONNew_def)
next
  assume a: "readReply ''/json/list'' (json_list cp) = Inr targets"
  show "case find (usableTarget base) targets of
             Some p \<Rightarrow> fst (resolveWSEndpointViaJSONList cp base)
                        = rewriteWebSocketDebuggerURL (WebSocketDebuggerURL p) base
           | None \<Rightarrow> isl (fst (resolveWSEndpointViaJSONList cp base))"
  proof (cases "find (usableTarget base) targets")
    case None
    then show ?thesis
      using a by (simp add: resolveWSEndpointViaJSONList_def scanPayloads_find)
  next
    case (Some p)
    then show ?thesis
      using a find_usable [OF Some]
      by (simp add: resolveWSEndpointViaJSONList_def scanPayloads_find)
  qed
next
  assume "isl (readReply ''/json/new'' (json_new cp))"
  then show "isl (fst (resolveWSEndpointViaJSONNew cp base))"
    by (auto simp: resolveWSEndpointViaJSONNew_def isl_def)
next
  assume "isl (readReply ''/json/list'' (json_list cp))"
  then show "isl (fst (resolveWSEndpointViaJSONList cp base))"
    by (auto simp: resolveWSEndpointViaJSONList_def isl_def)
qed

theorem discovery_fallback_witness:
  "readReply ''/json/version''
      (json_version
        \<lparr>json_version = Response 200 [] (Inr \<lparr>vrWebSocketDebuggerURL = ''ws://0.0.0.0:3000''\<rparr>),
         json_new = Response 500 ''no session'' (Inr (targetWithURL [])),
         json_list = Response 200 []
           (Inr [targetWithURL ''ws://0.0.0.0:3000'',
                 targetWithURL ''ws://0.0.0.0:3000/devtools/page/2''])\<rparr>)
     = Inr \<lparr>vrWebSocketDebuggerURL = ''ws://0.0.0.0:3000''\<rparr>
   \<and> \<not> hasDevToolsPath (TrimSpace ''ws://0.0.0.0:3000'')
   \<and> snd (resolveWSEndpointViaJSONVersion
        \<lparr>json_version = Response 200 [] (Inr \<lparr>vrWebSocketDebuggerURL = ''ws://0.0.0.0:3000''\<rparr>),
         json_new = Response 500 ''no session'' (Inr (targetWithURL [])),
         json_list = Response 200 []
           (Inr [targetWithURL ''ws://0.0.0.0:3000'',
                 targetWithURL ''ws://0.0.0.0:3000/devtools/page/2''])\<rparr>
        (emptyURL\<lparr>Scheme := ''https'', Host := ''chrome.example.com'', Path := ''/b/''\<rparr>))
     = [(GET, ''https://chrome.example.com/b/json/version''),
        (PUT, ''https://chrome.example.com/b/json/new''),
        (GET, ''https://chrome.example.com/b/json/list'')]
   \<and> fst (resolveWSEndpointViaJSONVersion
        \<lparr>json_version = Response 200 [] (Inr \<lparr>vrWebSocketDebuggerURL = ''ws://0.0.0.0:3000''\<rparr>),
         json_new = Response 500 ''no session'' (Inr (targetWithURL [])),
         json_list = Response 200 []
           (Inr [targetWithURL ''ws://0.0.0.0:3000'',
                 targetWithURL ''ws://0.0.0.0:3000/devtools/page/2''])\<rparr>
        (emptyURL\<lparr>Scheme := ''https'', Host := ''chrome.example.com'', Path := ''/b/''\<rparr>))
     = Inr ''wss://chrome.example.com:443/devtools/page/2''"
proof -
  let ?vr = "\<lparr>vrWebSocketDebuggerURL = ''ws://0.0.0.0:3000''\<rparr>"
  let ?ts = "[targetWithURL ''ws://0.0.0.0:3000'',
              targetWithURL ''ws://0.0.0.0:3000/devtools/page/2'']"
  let ?cp = "\<lparr>json_version = Response 200 [] (Inr ?vr),
         json_new = Response 500 ''no session'' (Inr (targetWithURL [])),
         json_list = Response 200 [] (Inr ?ts)\<rparr>"
  let ?base = "emptyURL\<lparr>Scheme := ''https'', Host := ''chrome.example.com'', Path := ''/b/''\<rparr>"
  have v: "readReply ''/json/version'' (json_version ?cp) = Inr ?vr"
    by (simp add: readReply_def)
  have nd: "\<not> hasDevToolsPath (TrimSpace ''ws://0.0.0.0:3000'')"
    by code_simp
  have n: "isl (readReply ''/json/new'' (json_new ?cp))"
    by (simp add: readReply_def)
  have l: "readReply ''/json/list'' (json_list ?cp) = Inr ?ts"
    by (simp add: readReply_def)
  have f: "find (usableTarget ?base) ?ts = Some (targetWithURL ''ws://0.0.0.0:3000/devtools/page/2'')"
    by code_simp
  have rw: "rewriteWebSocketDebuggerURL
              (WebSocketDebuggerURL (targetWithURL ''ws://0.0.0.0:3000/devtools/page/2'')) ?base
            = Inr ''wss://chrome.example.com:443/devtools/page/2''"
    by code_simp
  have u: "endpointURL ?base ''/json/version'' = ''https://chrome.example.com/b/json/version''"
    "endpointURL ?base ''/json/new'' = ''https://chrome.example.com/b/json/new''"
    "endpointURL ?base ''/json/list'' = ''https://chrome.example.com/b/json/list''"
    by code_simp+
  note D = discovery_fallback [where cp = ?cp and vr = ?vr and base = ?base and targets = ?ts]
  have newFails: "isl (fst (resolveWSEndpointViaJSONNew ?cp ?base))"
    using D n by blast
  have lst: "fst (resolveWSEndpointViaJSONList ?cp ?base)
               = Inr ''wss://chrome.example.com:443/devtools/page/2''"
    using D l f rw by simp
  have hyp: "readReply ''/json/version'' (json_version ?cp) = Inr ?vr
             \<and> \<not> hasDevToolsPath (TrimSpace (vrWebSocketDebuggerURL ?vr))"
    using v nd by simp
  have calls: "snd (resolveWSEndpointViaJSONVersion ?cp ?base)
          = [(GET, endpointURL ?base ''/json/version''), (PUT, endpointURL ?base ''/json/new'')]
            @ (if isl (fst (resolveWSEndpointViaJSONNew ?cp ?base))
               then [(GET, endpointURL ?base ''/json/list'')] else [])"
    using D hyp by blast
  have res: "fst (resolveWSEndpointViaJSONVersion ?cp ?base)
                 = fst (resolveWSEndpointViaJSONList ?cp ?base)"
    using D hyp newFails lst by simp
  show ?thesis
    using v nd calls res newFails lst u by simp
qed

end
